theory Spec2Isabelle
  imports Main
begin

section \<open>JavaScript values\<close>

text \<open>
  The proxy works on objects produced by \<^verbatim>\<open>JSON.parse\<close> and on the few other values its
  own expressions create (\<^verbatim>\<open>undefined\<close> for a missing property, \<^verbatim>\<open>NaN\<close> from arithmetic).
  An object is the list of its own properties; a number is an integer (token counts,
  status codes); a string is the list of its code units.
\<close>

datatype jsval =
    JUndefined
  | JNull
  | JBool bool
  | JNum int
  | JNaN
  | JStr string
  | JArr "jsval list"
  | JObj "(string \<times> jsval) list"

text \<open>What a \<^verbatim>\<open>throw\<close> carries: the constructor and the message.\<close>

datatype js_error = Error string | TypeError string | SyntaxError string

fun message :: "js_error \<Rightarrow> string" where
  "message (Error m) = m"
| "message (TypeError m) = m"
| "message (SyntaxError m) = m"

text \<open>Truthiness, as \<^verbatim>\<open>if (v)\<close>, \<^verbatim>\<open>v || w\<close> and \<^verbatim>\<open>!v\<close> test it.\<close>

fun truthy :: "jsval \<Rightarrow> bool" where
  "truthy JUndefined = False"
| "truthy JNull = False"
| "truthy (JBool b) = b"
| "truthy (JNum n) = (n \<noteq> 0)"
| "truthy JNaN = False"
| "truthy (JStr s) = (s \<noteq> [])"
| "truthy (JArr xs) = True"
| "truthy (JObj kvs) = True"

definition js_or :: "jsval \<Rightarrow> jsval \<Rightarrow> jsval" where
  "js_or a b = (if truthy a then a else b)"

fun js_typeof :: "jsval \<Rightarrow> string" where
  "js_typeof JUndefined = ''undefined''"
| "js_typeof JNull = ''object''"
| "js_typeof (JBool b) = ''boolean''"
| "js_typeof (JNum n) = ''number''"
| "js_typeof JNaN = ''number''"
| "js_typeof (JStr s) = ''string''"
| "js_typeof (JArr xs) = ''object''"
| "js_typeof (JObj kvs) = ''object''"

text \<open>
  \<^verbatim>\<open>v.name\<close>: a \<^verbatim>\<open>TypeError\<close> on \<^verbatim>\<open>null\<close> and \<^verbatim>\<open>undefined\<close>, the own property of an
  object, \<^verbatim>\<open>length\<close> of a string or an array, and \<^verbatim>\<open>undefined\<close> otherwise. The names the
  proxy reads are fixed words (\<^verbatim>\<open>message\<close>, \<^verbatim>\<open>content\<close>, \<^verbatim>\<open>done\<close>, ...), none of them a
  method of a prototype.
\<close>

definition cannot_read :: "string \<Rightarrow> string \<Rightarrow> js_error" where
  "cannot_read what name =
     TypeError (''Cannot read properties of '' @ what @ '' (reading '' @ [CHR 0x27] @ name @ [CHR 0x27] @ '')'')"

fun get_prop :: "jsval \<Rightarrow> string \<Rightarrow> js_error + jsval" where
  "get_prop JUndefined name = Inl (cannot_read ''undefined'' name)"
| "get_prop JNull name = Inl (cannot_read ''null'' name)"
| "get_prop (JObj kvs) name = Inr (case map_of kvs name of None \<Rightarrow> JUndefined | Some v \<Rightarrow> v)"
| "get_prop (JStr s) name = Inr (if name = ''length'' then JNum (int (length s)) else JUndefined)"
| "get_prop (JArr xs) name = Inr (if name = ''length'' then JNum (int (length xs)) else JUndefined)"
| "get_prop (JBool b) name = Inr JUndefined"
| "get_prop (JNum n) name = Inr JUndefined"
| "get_prop JNaN name = Inr JUndefined"

text \<open>\<^verbatim>\<open>v?.name\<close>: \<^verbatim>\<open>undefined\<close> instead of the \<^verbatim>\<open>TypeError\<close>.\<close>

definition get_opt :: "jsval \<Rightarrow> string \<Rightarrow> jsval" where
  "get_opt v name = (case get_prop v name of Inl e \<Rightarrow> JUndefined | Inr x \<Rightarrow> x)"

text \<open>\<^verbatim>\<open>v[0]\<close> on a value that is neither \<^verbatim>\<open>null\<close> nor \<^verbatim>\<open>undefined\<close>.\<close>

fun get_first :: "jsval \<Rightarrow> jsval" where
  "get_first (JArr xs) = (case xs of [] \<Rightarrow> JUndefined | x # _ \<Rightarrow> x)"
| "get_first (JObj kvs) = (case map_of kvs ''0'' of None \<Rightarrow> JUndefined | Some v \<Rightarrow> v)"
| "get_first (JStr s) = (case s of [] \<Rightarrow> JUndefined | c # _ \<Rightarrow> JStr [c])"
| "get_first v = JUndefined"

subsection \<open>Conversion to string\<close>

definition digits :: string where
  "digits = ''0123456789''"

function show_nat :: "nat \<Rightarrow> string" where
  "show_nat n = (if n < 10 then [digits ! n] else show_nat (n div 10) @ [digits ! (n mod 10)])"
  by pat_completeness auto
termination
  by (relation "measure (\<lambda>n. n)") auto

declare show_nat.simps [simp del]

definition show_int :: "int \<Rightarrow> string" where
  "show_int i = (if i < 0 then ''-'' @ show_nat (nat (- i)) else show_nat (nat i))"

fun join_with :: "string \<Rightarrow> string list \<Rightarrow> string" where
  "join_with sep [] = []"
| "join_with sep [x] = x"
| "join_with sep (x # y # ys) = x @ sep @ join_with sep (y # ys)"

text \<open>
  \<^verbatim>\<open>String(v)\<close>, which string concatenation and template literals apply: an array joins its
  elements with commas (\<^verbatim>\<open>null\<close> and \<^verbatim>\<open>undefined\<close> as the empty string), a plain object is
  \<^verbatim>\<open>[object Object]\<close>.
\<close>

fun to_string :: "jsval \<Rightarrow> string" where
  "to_string JUndefined = ''undefined''"
| "to_string JNull = ''null''"
| "to_string (JBool b) = (if b then ''true'' else ''false'')"
| "to_string (JNum n) = show_int n"
| "to_string JNaN = ''NaN''"
| "to_string (JStr s) = s"
| "to_string (JArr xs) =
     join_with '','' (map (\<lambda>x. if x = JUndefined \<or> x = JNull then [] else to_string x) xs)"
| "to_string (JObj kvs) = ''[object Object]''"

text \<open>\<^verbatim>\<open>a + b\<close>: concatenation when either side is a string, an array or an object, addition of
  numbers otherwise.\<close>

fun stringish :: "jsval \<Rightarrow> bool" where
  "stringish (JStr s) = True"
| "stringish (JArr xs) = True"
| "stringish (JObj kvs) = True"
| "stringish v = False"

fun to_number :: "jsval \<Rightarrow> int option" where
  "to_number JNull = Some 0"
| "to_number (JBool b) = Some (if b then 1 else 0)"
| "to_number (JNum n) = Some n"
| "to_number v = None"

definition js_add :: "jsval \<Rightarrow> jsval \<Rightarrow> jsval" where
  "js_add a b =
     (if stringish a \<or> stringish b then JStr (to_string a @ to_string b)
      else case (to_number a, to_number b) of
             (Some x, Some y) \<Rightarrow> JNum (x + y)
           | _ \<Rightarrow> JNaN)"

subsection \<open>String search\<close>

fun starts_with :: "string \<Rightarrow> string \<Rightarrow> bool" where
  "starts_with s [] = True"
| "starts_with [] (p # ps) = False"
| "starts_with (c # cs) (p # ps) = (c = p \<and> starts_with cs ps)"

text \<open>\<^verbatim>\<open>s.includes(sub)\<close>.\<close>

fun str_includes :: "string \<Rightarrow> string \<Rightarrow> bool" where
  "str_includes [] sub = (sub = [])"
| "str_includes (c # cs) sub = (starts_with (c # cs) sub \<or> str_includes cs sub)"

section \<open>Configuration: the key pool and its cursor\<close>

text \<open>
  Class \<^verbatim>\<open>Config\<close>: the pool \<^verbatim>\<open>config.apiKeys\<close> and the field \<^verbatim>\<open>currentKeyIndex\<close>, which the
  constructor sets to 0. The counter \<open>fetches\<close> is not a field of the class: it counts the
  calls of \<^verbatim>\<open>fetch\<close> made so far, so that a theorem can say how many attempts a call made.
\<close>

record world =
  apiKeys :: "string list"
  currentKeyIndex :: nat
  fetches :: nat

definition Config :: "string list \<Rightarrow> world" where
  "Config keys = \<lparr>apiKeys = keys, currentKeyIndex = 0, fetches = 0\<rparr>"

definition getApiKey :: "world \<Rightarrow> string option" where
  "getApiKey w =
     (if length (apiKeys w) = 0 then None
      else Some (apiKeys w ! (currentKeyIndex w mod length (apiKeys w))))"

definition getApiKeys :: "world \<Rightarrow> string list" where
  "getApiKeys w = apiKeys w"

definition rotateApiKey :: "world \<Rightarrow> world" where
  "rotateApiKey w =
     (if length (apiKeys w) > 1
      then w\<lparr>currentKeyIndex := (currentKeyIndex w + 1) mod length (apiKeys w)\<rparr>
      else w)"

definition getCurrentKeyIndex :: "world \<Rightarrow> nat" where
  "getCurrentKeyIndex w = currentKeyIndex w"

text \<open>The methods of \<^verbatim>\<open>Config\<close> that the transport calls, and a run of any sequence of them.\<close>

datatype config_op = OpGetApiKey | OpGetApiKeys | OpRotateApiKey | OpGetCurrentKeyIndex

fun config_step :: "world \<Rightarrow> config_op \<Rightarrow> world" where
  "config_step w OpRotateApiKey = rotateApiKey w"
| "config_step w OpGetApiKey = w"
| "config_step w OpGetApiKeys = w"
| "config_step w OpGetCurrentKeyIndex = w"

definition config_run :: "world \<Rightarrow> config_op list \<Rightarrow> world" where
  "config_run w ops = foldl config_step w ops"

text \<open>The index that \<^verbatim>\<open>getApiKey\<close> reads the pool at.\<close>

definition active_index :: "world \<Rightarrow> nat" where
  "active_index w = currentKeyIndex w mod length (apiKeys w)"

section \<open>Format converter\<close>

text \<open>
  \<^verbatim>\<open>JSON.stringify\<close> and \<^verbatim>\<open>JSON.parse\<close> are built into the runtime; the functions that call
  them take them as the parameters \<open>stringify\<close> and \<open>parse\<close>. Identifiers built from
  \<^verbatim>\<open>Date.now()\<close> and \<^verbatim>\<open>Math.random()\<close> are left out of the results, as are fields that hold
  a constant.
\<close>

subsection \<open>Anthropic request to Ollama request\<close>

record anthropic_request =
  model :: jsval
  messages :: "jsval list"
  max_tokens :: jsval
  temperature :: jsval
  top_p :: jsval
  tools :: jsval
  system :: jsval

record ollama_message =
  role :: jsval
  content :: jsval

record ollama_request =
  o_model :: jsval
  o_messages :: "ollama_message list"
  o_stream :: jsval
  o_options :: "(string \<times> jsval) list"

text \<open>The optional system message: \<^verbatim>\<open>typeof system === "string" ? system : system[0]?.text || ""\<close>.\<close>

definition system_message :: "jsval \<Rightarrow> ollama_message list" where
  "system_message sys =
     (if truthy sys
      then [\<lparr>role = JStr ''system'',
             content = (if js_typeof sys = ''string'' then sys
                        else js_or (get_opt (get_first sys) ''text'') (JStr []))\<rparr>]
      else [])"

text \<open>What one content block appends to \<^verbatim>\<open>content\<close>; \<^verbatim>\<open>block.type\<close> throws on \<^verbatim>\<open>null\<close>.\<close>

definition block_text :: "(jsval \<Rightarrow> jsval) \<Rightarrow> jsval \<Rightarrow> js_error + string" where
  "block_text stringify block =
     (case get_prop block ''type'' of
        Inl e \<Rightarrow> Inl e
      | Inr t \<Rightarrow>
          if t = JStr ''text'' then Inr (to_string (get_opt block ''text''))
          else if t = JStr ''tool_use'' then
            Inr (''[tool_call: '' @ to_string (get_opt block ''name'') @ ''(''
                 @ to_string (stringify (get_opt block ''input'')) @ '')]'')
          else if t = JStr ''tool_result'' then
            Inr (''[tool_result: '' @ to_string (get_opt block ''content'') @ '']'')
          else Inr [])"

fun blocks_loop :: "(jsval \<Rightarrow> jsval) \<Rightarrow> string \<Rightarrow> jsval list \<Rightarrow> js_error + string" where
  "blocks_loop stringify acc [] = Inr acc"
| "blocks_loop stringify acc (block # blocks) =
     (case block_text stringify block of
        Inl e \<Rightarrow> Inl e
      | Inr t \<Rightarrow> blocks_loop stringify (acc @ t) blocks)"

definition convert_role :: "jsval \<Rightarrow> jsval" where
  "convert_role r =
     (if r = JStr ''user'' then JStr ''user''
      else if r = JStr ''assistant'' then JStr ''assistant''
      else JStr ''user'')"

text \<open>The body of the loop over \<^verbatim>\<open>messages\<close>: the messages it pushes for one \<^verbatim>\<open>msg\<close>.\<close>

definition convert_message :: "(jsval \<Rightarrow> jsval) \<Rightarrow> jsval \<Rightarrow> js_error + ollama_message list" where
  "convert_message stringify msg =
     (case get_prop msg ''role'' of
        Inl e \<Rightarrow> Inl e
      | Inr r \<Rightarrow>
          (case get_opt msg ''content'' of
             JStr s \<Rightarrow> Inr [\<lparr>role = convert_role r, content = JStr s\<rparr>]
           | JArr blocks \<Rightarrow>
               (case blocks_loop stringify [] blocks of
                  Inl e \<Rightarrow> Inl e
                | Inr c \<Rightarrow>
                    Inr (if c \<noteq> [] then [\<lparr>role = convert_role r, content = JStr c\<rparr>] else []))
           | _ \<Rightarrow> Inr []))"

fun messages_loop ::
  "(jsval \<Rightarrow> jsval) \<Rightarrow> ollama_message list \<Rightarrow> jsval list \<Rightarrow> js_error + ollama_message list" where
  "messages_loop stringify acc [] = Inr acc"
| "messages_loop stringify acc (msg # msgs) =
     (case convert_message stringify msg of
        Inl e \<Rightarrow> Inl e
      | Inr out \<Rightarrow> messages_loop stringify (acc @ out) msgs)"

definition build_options :: "jsval \<Rightarrow> jsval \<Rightarrow> jsval \<Rightarrow> (string \<times> jsval) list" where
  "build_options temp topp maxtok =
     (if temp \<noteq> JUndefined then [(''temperature'', temp)] else [])
     @ (if topp \<noteq> JUndefined then [(''top_p'', topp)] else [])
     @ (if maxtok \<noteq> JUndefined then [(''num_predict'', maxtok)] else [])"

definition convertAnthropicToOllama ::
  "(jsval \<Rightarrow> jsval) \<Rightarrow> anthropic_request \<Rightarrow> js_error + ollama_request" where
  "convertAnthropicToOllama stringify req =
     (case messages_loop stringify (system_message (system req)) (messages req) of
        Inl e \<Rightarrow> Inl e
      | Inr ms \<Rightarrow>
          Inr \<lparr>o_model = model req, o_messages = ms, o_stream = JBool False,
               o_options = build_options (temperature req) (top_p req) (max_tokens req)\<rparr>)"

subsection \<open>Ollama response to Anthropic response\<close>

record anthropic_response =
  a_text :: jsval
  a_model :: jsval
  a_stop_reason :: jsval
  a_input_tokens :: jsval
  a_output_tokens :: jsval

text \<open>Destructuring \<^verbatim>\<open>const { message, ... } = ollamaResponse\<close> throws on \<^verbatim>\<open>null\<close>.\<close>

definition destructure :: "jsval \<Rightarrow> string \<Rightarrow> js_error + jsval" where
  "destructure v name =
     (if v = JUndefined \<or> v = JNull
      then Inl (TypeError (''Cannot destructure property '' @ [CHR 0x27] @ name @ [CHR 0x27]
                           @ '' of object as it is '' @ to_string v @ ''.''))
      else get_prop v name)"

definition anthropic_content :: "jsval \<Rightarrow> jsval" where
  "anthropic_content msg =
     (if truthy msg then
        (let mc = get_opt msg ''content'' in
         if js_typeof mc = ''string'' then mc
         else if truthy mc \<and> js_typeof mc = ''object'' then
           js_or (js_or (js_or (get_opt mc ''content'') (get_opt mc ''text'')) mc) (JStr [])
         else if js_typeof msg = ''string'' then msg
         else JStr [])
      else JStr [])"

definition convertOllamaToAnthropic :: "jsval \<Rightarrow> jsval \<Rightarrow> js_error + anthropic_response" where
  "convertOllamaToAnthropic ollamaResponse mdl =
     (case destructure ollamaResponse ''message'' of
        Inl e \<Rightarrow> Inl e
      | Inr msg \<Rightarrow>
          (let done = get_opt ollamaResponse ''done'';
               prompt_eval_count = get_opt ollamaResponse ''prompt_eval_count'';
               eval_count = get_opt ollamaResponse ''eval_count'';
               c = anthropic_content msg
           in Inr \<lparr>a_text = c, a_model = mdl,
                   a_stop_reason = (if truthy done then JStr ''end_turn'' else JNull),
                   a_input_tokens = js_or prompt_eval_count (JNum 0),
                   a_output_tokens = js_or (js_or eval_count (get_opt c ''length'')) (JNum 0)\<rparr>))"

subsection \<open>Ollama stream chunk to Anthropic event\<close>

datatype anthropic_event =
    ContentBlockDelta (delta_text: jsval)
  | MessageStop (stop_content: jsval) (stop_model: jsval)
      (stop_input_tokens: jsval) (stop_output_tokens: jsval)

definition convertOllamaStreamToAnthropic :: "jsval \<Rightarrow> jsval \<Rightarrow> js_error + anthropic_event option" where
  "convertOllamaStreamToAnthropic chunk mdl =
     (case get_prop chunk ''message'' of
        Inl e \<Rightarrow> Inl e
      | Inr msg \<Rightarrow>
          if get_opt msg ''content'' \<noteq> JUndefined
          then Inr (Some (ContentBlockDelta (get_opt msg ''content'')))
          else if truthy (get_opt chunk ''done'')
          then Inr (Some (MessageStop (JStr []) mdl
                      (js_or (get_opt chunk ''prompt_eval_count'') (JNum 0))
                      (js_or (get_opt chunk ''eval_count'') (JNum 0))))
          else Inr None)"

subsection \<open>OpenAI request to Ollama request\<close>

record openai_request =
  oa_model :: jsval
  oa_messages :: jsval
  oa_temperature :: jsval
  oa_top_p :: jsval
  oa_max_tokens :: jsval
  oa_stream :: jsval

text \<open>\<^verbatim>\<open>Array.prototype.join("")\<close> renders \<^verbatim>\<open>null\<close> and \<^verbatim>\<open>undefined\<close> as the empty string.\<close>

definition join_elem :: "jsval \<Rightarrow> string" where
  "join_elem v = (if v = JUndefined \<or> v = JNull then [] else to_string v)"

definition convert_part :: "jsval \<Rightarrow> js_error + jsval" where
  "convert_part part =
     (case get_prop part ''type'' of
        Inl e \<Rightarrow> Inl e
      | Inr t \<Rightarrow>
          if t = JStr ''text'' then Inr (get_opt part ''text'')
          else if t = JStr ''image_url'' then
            Inr (JStr (''[image: ''
                       @ to_string (js_or (get_opt (get_opt part ''image_url'') ''url'') (JStr []))
                       @ '']''))
          else Inr (JStr []))"

fun map_throwing :: "('a \<Rightarrow> js_error + 'b) \<Rightarrow> 'a list \<Rightarrow> js_error + 'b list" where
  "map_throwing f [] = Inr []"
| "map_throwing f (x # xs) =
     (case f x of
        Inl e \<Rightarrow> Inl e
      | Inr y \<Rightarrow> (case map_throwing f xs of Inl e \<Rightarrow> Inl e | Inr ys \<Rightarrow> Inr (y # ys)))"

definition convert_openai_message :: "jsval \<Rightarrow> js_error + ollama_message" where
  "convert_openai_message msg =
     (case get_prop msg ''content'' of
        Inl e \<Rightarrow> Inl e
      | Inr c \<Rightarrow>
          (case c of
             JStr s \<Rightarrow> Inr \<lparr>role = get_opt msg ''role'', content = JStr s\<rparr>
           | JArr parts \<Rightarrow>
               (case map_throwing convert_part parts of
                  Inl e \<Rightarrow> Inl e
                | Inr ps \<Rightarrow>
                    Inr \<lparr>role = get_opt msg ''role'',
                         content = JStr (concat (map join_elem ps))\<rparr>)
           | _ \<Rightarrow> Inr \<lparr>role = get_opt msg ''role'', content = JStr []\<rparr>))"

definition convertOpenAIToOllama :: "openai_request \<Rightarrow> js_error + ollama_request" where
  "convertOpenAIToOllama req =
     (case js_or (oa_messages req) (JArr []) of
        JArr msgs \<Rightarrow>
          (case map_throwing convert_openai_message msgs of
             Inl e \<Rightarrow> Inl e
           | Inr ms \<Rightarrow>
               Inr \<lparr>o_model = oa_model req, o_messages = ms,
                    o_stream = js_or (oa_stream req) (JBool False),
                    o_options = build_options (oa_temperature req) (oa_top_p req)
                                  (oa_max_tokens req)\<rparr>)
      | _ \<Rightarrow> Inl (TypeError ''(messages || []).map is not a function''))"

subsection \<open>Ollama response to OpenAI completion\<close>

record openai_response =
  c_content :: jsval
  c_model :: jsval
  c_finish_reason :: jsval
  c_prompt_tokens :: jsval
  c_completion_tokens :: jsval
  c_total_tokens :: jsval

text \<open>The text of a message before the thinking is added (the first \<^verbatim>\<open>if\<close>-chain).\<close>

definition openai_content :: "jsval \<Rightarrow> jsval" where
  "openai_content msg =
     (let mc = get_opt msg ''content'' in
      if js_typeof mc = ''string'' then mc
      else if truthy mc \<and> js_typeof mc = ''object'' then
        js_or (js_or (get_opt mc ''content'') (get_opt mc ''text'')) (JStr [])
      else JStr [])"

text \<open>\<^verbatim>\<open>message.thinking + (content ? "\n\n" + content : "")\<close>.\<close>

definition with_thinking :: "jsval \<Rightarrow> jsval \<Rightarrow> jsval" where
  "with_thinking thinking c =
     js_add thinking (if truthy c then js_add (JStr ''\<newline>\<newline>'') c else JStr [])"

definition convertOllamaToOpenAI :: "jsval \<Rightarrow> jsval \<Rightarrow> js_error + openai_response" where
  "convertOllamaToOpenAI ollamaResponse mdl =
     (case destructure ollamaResponse ''message'' of
        Inl e \<Rightarrow> Inl e
      | Inr msg \<Rightarrow>
          (let done = get_opt ollamaResponse ''done'';
               prompt_eval_count = get_opt ollamaResponse ''prompt_eval_count'';
               eval_count = get_opt ollamaResponse ''eval_count'';
               c = (if truthy msg then
                      (let c0 = openai_content msg in
                       if truthy (get_opt msg ''thinking'')
                       then with_thinking (get_opt msg ''thinking'') c0 else c0)
                    else JStr [])
           in Inr \<lparr>c_content = c, c_model = mdl,
                   c_finish_reason = (if truthy done then JStr ''stop'' else JNull),
                   c_prompt_tokens = js_or prompt_eval_count (JNum 0),
                   c_completion_tokens = js_or eval_count (JNum 0),
                   c_total_tokens = js_add (js_or prompt_eval_count (JNum 0))
                                      (js_or eval_count (JNum 0))\<rparr>))"

subsection \<open>Ollama stream chunk to OpenAI chunk\<close>

datatype openai_chunk =
    StopChunk (chunk_model: jsval)
  | DeltaChunk (chunk_model: jsval) (chunk_content: jsval)

definition stream_text :: "jsval \<Rightarrow> jsval" where
  "stream_text msg =
     (let mc = get_opt msg ''content'';
          text0 = (if truthy mc then
                     (if js_typeof mc = ''string'' then mc
                      else js_or (js_or (get_opt mc ''content'') (get_opt mc ''text'')) (JStr []))
                   else JStr [])
      in if truthy (get_opt msg ''thinking'')
         then with_thinking (get_opt msg ''thinking'') text0 else text0)"

definition convertOllamaStreamToOpenAI :: "jsval \<Rightarrow> jsval \<Rightarrow> js_error + openai_chunk option" where
  "convertOllamaStreamToOpenAI chunk mdl =
     (case get_prop chunk ''done'' of
        Inl e \<Rightarrow> Inl e
      | Inr done \<Rightarrow>
          if truthy done then Inr (Some (StopChunk mdl))
          else
            (let msg = get_opt chunk ''message'' in
             if \<not> truthy msg then Inr None
             else if \<not> truthy (stream_text msg) then Inr None
             else Inr (Some (DeltaChunk mdl (stream_text msg)))))"

section \<open>Transport\<close>

text \<open>
  A response as the clients read it: the status and the body text (\<^verbatim>\<open>response.json()\<close> is
  \<open>parse\<close> of the body). The upstream is a function of the number of fetches made before
  this one and of the key in the \<^verbatim>\<open>Authorization\<close> header; it answers with a response or
  makes \<^verbatim>\<open>fetch\<close> throw. \<^verbatim>\<open>sleep\<close> only delays and has no counterpart here.
\<close>

record response =
  status :: nat
  body :: string

definition ok :: "response \<Rightarrow> bool" where
  "ok r = (200 \<le> status r \<and> status r \<le> 299)"

type_synonym upstream = "nat \<Rightarrow> string \<Rightarrow> js_error + response"

definition MAX_RETRIES :: nat where
  "MAX_RETRIES = 3"

definition isNetworkError :: "js_error \<Rightarrow> bool" where
  "isNetworkError error =
     (str_includes (message error) ''ECONNREFUSED'' \<or>
      str_includes (message error) ''ENOTFOUND'' \<or>
      str_includes (message error) ''ETIMEDOUT'' \<or>
      str_includes (message error) ''socket hang up'' \<or>
      str_includes (message error) ''fetch failed'')"

text \<open>
  \<^verbatim>\<open>fetchWithKeyRotation\<close>, which \<^verbatim>\<open>client.js\<close> and \<^verbatim>\<open>openai-client.js\<close> each define with the
  same body: the loop over \<^verbatim>\<open>keyAttempt\<close>, then the function.
\<close>

function fetch_loop ::
  "upstream \<Rightarrow> nat \<Rightarrow> nat \<Rightarrow> js_error option \<Rightarrow> world \<Rightarrow> (js_error + response) \<times> world" where
  "fetch_loop upstream maxKeyAttempts keyAttempt lastError w =
     (if keyAttempt < maxKeyAttempts then
        (case getApiKey w of
           None \<Rightarrow> (Inl (Error ''No API key configured''), w)
         | Some apiKey \<Rightarrow>
             if apiKey = [] then (Inl (Error ''No API key configured''), w)
             else
               (case upstream (fetches w) apiKey of
                  Inr resp \<Rightarrow>
                    if status resp = 401 then
                      fetch_loop upstream maxKeyAttempts (keyAttempt + 1) lastError
                        (rotateApiKey (w\<lparr>fetches := fetches w + 1\<rparr>))
                    else if status resp = 429 \<and> length (getApiKeys w) > 1 then
                      fetch_loop upstream maxKeyAttempts (keyAttempt + 1) lastError
                        (rotateApiKey (w\<lparr>fetches := fetches w + 1\<rparr>))
                    else (Inr resp, w\<lparr>fetches := fetches w + 1\<rparr>)
                | Inl error \<Rightarrow>
                    if isNetworkError error \<and> length (getApiKeys w) > 1 then
                      fetch_loop upstream maxKeyAttempts (keyAttempt + 1) (Some error)
                        (rotateApiKey (w\<lparr>fetches := fetches w + 1\<rparr>))
                    else (Inl error, w\<lparr>fetches := fetches w + 1\<rparr>)))
      else (Inl (case lastError of Some e \<Rightarrow> e | None \<Rightarrow> Error ''All API keys exhausted''), w))"
  by pat_completeness auto
termination
  by (relation "measure (\<lambda>(u, m, k, l, w). m - k)") auto

declare fetch_loop.simps [simp del]

text \<open>\<^verbatim>\<open>maxAttempts || keys.length || 1\<close>; no caller passes \<^verbatim>\<open>maxAttempts\<close>.\<close>

definition fetchWithKeyRotation ::
  "upstream \<Rightarrow> nat option \<Rightarrow> world \<Rightarrow> (js_error + response) \<times> world" where
  "fetchWithKeyRotation upstream maxAttempts w =
     (let n = (case maxAttempts of None \<Rightarrow> 0 | Some m \<Rightarrow> m);
          maxKeyAttempts = (if n \<noteq> 0 then n
                            else if length (getApiKeys w) \<noteq> 0 then length (getApiKeys w)
                            else 1)
      in fetch_loop upstream maxKeyAttempts 0 None w)"

text \<open>How the \<^verbatim>\<open>try\<close> block of one attempt ends.\<close>

datatype 'a outcome = Returned 'a | Continued | Thrown js_error

text \<open>
  The \<^verbatim>\<open>try\<close> block of \<^verbatim>\<open>sendMessage\<close> and of \<^verbatim>\<open>sendOpenAIMessage\<close>, which differ in the
  converter applied to the parsed body.
\<close>

definition send_try ::
  "(string \<Rightarrow> js_error + jsval) \<Rightarrow> upstream \<Rightarrow> (jsval \<Rightarrow> js_error + 'a) \<Rightarrow> world
   \<Rightarrow> 'a outcome \<times> world" where
  "send_try parse upstream convert w =
     (case fetchWithKeyRotation upstream None w of
        (Inl e, w1) \<Rightarrow> (Thrown e, w1)
      | (Inr resp, w1) \<Rightarrow>
          if \<not> ok resp then
            (if status resp = 429 then (Continued, w1)
             else if status resp = 401 then
               (Thrown (Error ''authentication_error: All API keys invalid''), w1)
             else
               (Thrown (Error (''API error '' @ show_nat (status resp) @ '': '' @ body resp)), w1))
          else
            (case parse (body resp) of
               Inl e \<Rightarrow> (Thrown e, w1)
             | Inr data \<Rightarrow>
                 (case convert data of
                    Inl e \<Rightarrow> (Thrown e, w1)
                  | Inr r \<Rightarrow> (Returned r, w1))))"

text \<open>The loop over \<^verbatim>\<open>attempt\<close> with its \<^verbatim>\<open>catch\<close> block, and the \<^verbatim>\<open>throw\<close> after it.\<close>

function send_loop ::
  "(string \<Rightarrow> js_error + jsval) \<Rightarrow> upstream \<Rightarrow> (jsval \<Rightarrow> js_error + 'a) \<Rightarrow> nat
   \<Rightarrow> js_error option \<Rightarrow> world \<Rightarrow> (js_error + 'a) \<times> world" where
  "send_loop parse upstream convert attempt lastError w =
     (if attempt < MAX_RETRIES then
        (case send_try parse upstream convert w of
           (Returned r, w1) \<Rightarrow> (Inr r, w1)
         | (Continued, w1) \<Rightarrow> send_loop parse upstream convert (attempt + 1) lastError w1
         | (Thrown error, w1) \<Rightarrow>
             if isNetworkError error \<and> attempt < MAX_RETRIES - 1
             then send_loop parse upstream convert (attempt + 1) lastError w1
             else send_loop parse upstream convert (attempt + 1) (Some error) w1)
      else (Inl (case lastError of Some e \<Rightarrow> e | None \<Rightarrow> Error ''Max retries exceeded''), w))"
  by pat_completeness auto
termination
  by (relation "measure (\<lambda>(p, u, c, a, l, w). MAX_RETRIES - a)") auto

declare send_loop.simps [simp del]

definition sendMessage ::
  "(jsval \<Rightarrow> jsval) \<Rightarrow> (string \<Rightarrow> js_error + jsval) \<Rightarrow> upstream \<Rightarrow> anthropic_request \<Rightarrow> world
   \<Rightarrow> (js_error + anthropic_response) \<times> world" where
  "sendMessage stringify parse upstream anthropicRequest w =
     (case convertAnthropicToOllama stringify anthropicRequest of
        Inl e \<Rightarrow> (Inl e, w)
      | Inr ollamaRequest \<Rightarrow>
          send_loop parse upstream
            (\<lambda>data. convertOllamaToAnthropic data (model anthropicRequest)) 0 None w)"

definition sendOpenAIMessage ::
  "(string \<Rightarrow> js_error + jsval) \<Rightarrow> upstream \<Rightarrow> openai_request \<Rightarrow> world
   \<Rightarrow> (js_error + openai_response) \<times> world" where
  "sendOpenAIMessage parse upstream openaiRequest w =
     (case convertOpenAIToOllama openaiRequest of
        Inl e \<Rightarrow> (Inl e, w)
      | Inr ollamaRequest \<Rightarrow>
          send_loop parse upstream
            (\<lambda>data. convertOllamaToOpenAI data (oa_model openaiRequest)) 0 None w)"

subsection \<open>The front door's reading of an error\<close>

text \<open>\<^verbatim>\<open>parseError\<close> of the server: the error type and the HTTP status it answers with.\<close>

definition parseError :: "js_error \<Rightarrow> string \<times> nat" where
  "parseError error =
     (if str_includes (message error) ''401'' \<or> str_includes (message error) ''authentication_error''
      then (''authentication_error'', 401)
      else if str_includes (message error) ''429'' \<or> str_includes (message error) ''rate_limit''
      then (''rate_limit_error'', 429)
      else if str_includes (message error) ''invalid_request_error''
      then (''invalid_request_error'', 400)
      else (''api_error'', 500))"

section \<open>Stream demultiplexing\<close>

text \<open>\<^verbatim>\<open>buffer.split('\n')\<close>: never empty, its last element is the unfinished line.\<close>

fun split_nl :: "string \<Rightarrow> string list" where
  "split_nl [] = [[]]"
| "split_nl (c # cs) =
     (if c = CHR 0x0A then [] # split_nl cs
      else (case split_nl cs of [] \<Rightarrow> [[c]] | l # ls \<Rightarrow> (c # l) # ls))"

text \<open>The white space that \<^verbatim>\<open>trim\<close> removes, among the code units below 256.\<close>

definition is_space :: "char \<Rightarrow> bool" where
  "is_space c = (c \<in> set [CHR 0x09, CHR 0x0A, CHR 0x0B, CHR 0x0C, CHR 0x0D, CHR 0x20, CHR 0xA0])"

text \<open>\<^verbatim>\<open>!line.trim() || line.startsWith(':')\<close>.\<close>

definition skipped :: "string \<Rightarrow> bool" where
  "skipped line = (list_all is_space line \<or> starts_with line '':'')"

text \<open>
  The body of \<^verbatim>\<open>for (const line of lines)\<close> in \<^verbatim>\<open>sendMessageStream\<close>: the events it yields
  and the new value of \<^verbatim>\<open>content\<close>. Whatever the \<^verbatim>\<open>try\<close> block throws is caught and logged.
\<close>

definition anthropic_line ::
  "(string \<Rightarrow> js_error + jsval) \<Rightarrow> jsval \<Rightarrow> string \<Rightarrow> string \<Rightarrow> anthropic_event list \<times> string" where
  "anthropic_line parse mdl content_acc line =
     (if skipped line then ([], content_acc)
      else
        (case parse line of
           Inl e \<Rightarrow> ([], content_acc)
         | Inr data \<Rightarrow>
             (case get_prop data ''message'' of
                Inl e \<Rightarrow> ([], content_acc)
              | Inr msg \<Rightarrow>
                  (let c = get_opt msg ''content'';
                       content1 = (if truthy c then content_acc @ to_string c else content_acc);
                       deltas = (if truthy c then [ContentBlockDelta c] else []);
                       stops =
                         (if truthy (get_opt data ''done'')
                          then [MessageStop
                                  (JArr [JObj [(''type'', JStr ''text''), (''text'', JStr content1)]])
                                  mdl
                                  (js_or (get_opt data ''prompt_eval_count'') (JNum 0))
                                  (js_or (get_opt data ''eval_count'') (JNum 0))]
                          else [])
                   in (deltas @ stops, content1)))))"

fun anthropic_lines ::
  "(string \<Rightarrow> js_error + jsval) \<Rightarrow> jsval \<Rightarrow> string \<Rightarrow> string list \<Rightarrow> anthropic_event list \<times> string" where
  "anthropic_lines parse mdl content_acc [] = ([], content_acc)"
| "anthropic_lines parse mdl content_acc (line # lines) =
     (case anthropic_line parse mdl content_acc line of
        (evs, content1) \<Rightarrow>
          (case anthropic_lines parse mdl content1 lines of
             (evs', content2) \<Rightarrow> (evs @ evs', content2)))"

text \<open>
  The read loop of \<^verbatim>\<open>sendMessageStream\<close> on an open response: \<open>reads\<close> is what the successive
  \<^verbatim>\<open>reader.read()\<close> give, a decoded chunk or a failure, before the reader reports the end.
  The result is every event yielded, and the error if the generator throws.
\<close>

fun sendMessageStream_read ::
  "(string \<Rightarrow> js_error + jsval) \<Rightarrow> jsval \<Rightarrow> string \<Rightarrow> string \<Rightarrow> (js_error + string) list
   \<Rightarrow> anthropic_event list \<times> js_error option" where
  "sendMessageStream_read parse mdl buffer content_acc [] = ([], None)"
| "sendMessageStream_read parse mdl buffer content_acc (Inl e # reads) = ([], Some e)"
| "sendMessageStream_read parse mdl buffer content_acc (Inr chunk # reads) =
     (case anthropic_lines parse mdl content_acc (butlast (split_nl (buffer @ chunk))) of
        (evs, content1) \<Rightarrow>
          (case sendMessageStream_read parse mdl (last (split_nl (buffer @ chunk))) content1 reads of
             (evs', err) \<Rightarrow> (evs @ evs', err)))"

text \<open>The same loop in \<^verbatim>\<open>sendOpenAIMessageStream\<close>, which hands each parsed line to the converter.\<close>

definition openai_line :: "(string \<Rightarrow> js_error + jsval) \<Rightarrow> jsval \<Rightarrow> string \<Rightarrow> openai_chunk list" where
  "openai_line parse mdl line =
     (if skipped line then []
      else
        (case parse line of
           Inl e \<Rightarrow> []
         | Inr data \<Rightarrow>
             (case convertOllamaStreamToOpenAI data mdl of
                Inl e \<Rightarrow> []
              | Inr None \<Rightarrow> []
              | Inr (Some chunk) \<Rightarrow> [chunk])))"

fun sendOpenAIMessageStream_read ::
  "(string \<Rightarrow> js_error + jsval) \<Rightarrow> jsval \<Rightarrow> string \<Rightarrow> (js_error + string) list
   \<Rightarrow> openai_chunk list \<times> js_error option" where
  "sendOpenAIMessageStream_read parse mdl buffer [] = ([], None)"
| "sendOpenAIMessageStream_read parse mdl buffer (Inl e # reads) = ([], Some e)"
| "sendOpenAIMessageStream_read parse mdl buffer (Inr chunk # reads) =
     (case sendOpenAIMessageStream_read parse mdl (last (split_nl (buffer @ chunk))) reads of
        (evs', err) \<Rightarrow>
          (concat (map (openai_line parse mdl) (butlast (split_nl (buffer @ chunk)))) @ evs', err))"

section \<open>Vocabulary of the properties\<close>

text \<open>
  The words the properties of the request conversion use: a text block (its \<^verbatim>\<open>type\<close> is
  \<^verbatim>\<open>"text"\<close> and its \<^verbatim>\<open>text\<close> a string), the concatenation of the texts of a list of blocks,
  a message whose content is an array of text blocks only, and \<^verbatim>\<open>Array.isArray\<close>.
\<close>

definition is_text_block :: "jsval \<Rightarrow> bool" where
  "is_text_block block =
     (get_opt block ''type'' = JStr ''text'' \<and> js_typeof (get_opt block ''text'') = ''string'')"

definition block_texts :: "jsval list \<Rightarrow> string" where
  "block_texts blocks = concat (map (\<lambda>block. to_string (get_opt block ''text'')) blocks)"

definition text_only :: "jsval \<Rightarrow> bool" where
  "text_only msg =
     (case get_opt msg ''content'' of JArr blocks \<Rightarrow> list_all is_text_block blocks | _ \<Rightarrow> False)"

definition message_texts :: "jsval \<Rightarrow> string" where
  "message_texts msg =
     (case get_opt msg ''content'' of JArr blocks \<Rightarrow> block_texts blocks | _ \<Rightarrow> [])"

fun is_array :: "jsval \<Rightarrow> bool" where
  "is_array (JArr xs) = True"
| "is_array v = False"

section \<open>Sample inputs\<close>

text \<open>
  Concrete inputs for the closed examples: a stand-in for \<^verbatim>\<open>JSON.stringify\<close> (no example
  reaches it), a request, what \<^verbatim>\<open>JSON.parse\<close> gives on the texts the examples use, and
  three upstreams.
\<close>

definition sample_stringify :: "jsval \<Rightarrow> jsval" where
  "sample_stringify v = JStr ''{}''"

definition sample_request :: anthropic_request where
  "sample_request =
     \<lparr>model = JStr ''m'',
      messages = [JObj [(''role'', JStr ''user''), (''content'', JStr ''hello'')]],
      max_tokens = JNum 4096, temperature = JUndefined, top_p = JUndefined,
      tools = JUndefined, system = JUndefined\<rparr>"

definition sample_parse :: "string \<Rightarrow> js_error + jsval" where
  "sample_parse s =
     (if s = ''{\"message\":{\"content\":\"Hi\"},\"done\":false}'' then
        Inr (JObj [(''message'', JObj [(''content'', JStr ''Hi'')]), (''done'', JBool False)])
      else if s = ''{\"done\":true,\"eval_count\":3}'' then
        Inr (JObj [(''done'', JBool True), (''eval_count'', JNum 3)])
      else if s = ''{\"message\":{\"content\":\"Hi\"},\"done\":true,\"eval_count\":3}'' then
        Inr (JObj [(''message'', JObj [(''content'', JStr ''Hi'')]), (''done'', JBool True),
                   (''eval_count'', JNum 3)])
      else if s = ''null'' then Inr JNull
      else Inl (SyntaxError ''Unexpected token''))"

definition text_blocks_request :: anthropic_request where
  "text_blocks_request =
     \<lparr>model = JStr ''m'',
      messages =
        [JObj [(''role'', JStr ''user''),
               (''content'', JArr [JObj [(''type'', JStr ''text''), (''text'', JStr [])]])],
         JObj [(''role'', JStr ''assistant''),
               (''content'', JArr [JObj [(''type'', JStr ''text''), (''text'', JStr ''a'')],
                                  JObj [(''type'', JStr ''text''), (''text'', JStr ''b'')]])]],
      max_tokens = JNum 4096, temperature = JUndefined, top_p = JUndefined,
      tools = JUndefined, system = JStr ''be brief''\<rparr>"

definition sample_openai_request :: openai_request where
  "sample_openai_request =
     \<lparr>oa_model = JStr ''m'',
      oa_messages = JArr [JObj [(''role'', JStr ''user''), (''content'', JStr ''hello'')]],
      oa_temperature = JUndefined, oa_top_p = JUndefined, oa_max_tokens = JUndefined,
      oa_stream = JUndefined\<rparr>"

definition upstream_errors :: upstream where
  "upstream_errors n key =
     (if n = 0 then Inr \<lparr>status = 500, body = ''a''\<rparr>
      else if n = 1 then Inr \<lparr>status = 503, body = ''b''\<rparr>
      else Inr \<lparr>status = 502, body = ''c''\<rparr>)"

definition upstream_429 :: upstream where
  "upstream_429 n key = Inr \<lparr>status = 429, body = ''slow down''\<rparr>"

definition upstream_by_key :: upstream where
  "upstream_by_key n key =
     (if key = ''key-1'' then Inr \<lparr>status = 401, body = ''unauthorized''\<rparr>
      else Inr \<lparr>status = 200, body = ''{\"message\":{\"content\":\"Hi\"},\"done\":false}''\<rparr>)"

section \<open>Key rotation\<close>

lemma rotateApiKey_keys: "apiKeys (rotateApiKey w) = apiKeys w"
  by (simp add: rotateApiKey_def)

lemma rotateApiKey_valid:
  "currentKeyIndex w < length (apiKeys w) \<Longrightarrow>
   currentKeyIndex (rotateApiKey w) < length (apiKeys (rotateApiKey w))"
  by (auto simp add: rotateApiKey_def intro!: mod_less_divisor)

lemma config_step_keys: "apiKeys (config_step w op) = apiKeys w"
  by (cases op) (simp_all add: rotateApiKey_keys)

lemma config_step_valid:
  "currentKeyIndex w < length (apiKeys w) \<Longrightarrow>
   currentKeyIndex (config_step w op) < length (apiKeys (config_step w op))"
  by (cases op) (simp_all add: rotateApiKey_valid)

lemma config_run_valid:
  "currentKeyIndex w < length (apiKeys w) \<Longrightarrow>
   apiKeys (config_run w ops) = apiKeys w \<and>
   currentKeyIndex (config_run w ops) < length (apiKeys w)"
proof (induction ops arbitrary: w)
  case Nil
  then show ?case by (simp add: config_run_def)
next
  case (Cons op ops)
  have step: "currentKeyIndex (config_step w op) < length (apiKeys (config_step w op))"
    using Cons.prems by (rule config_step_valid)
  have "config_run w (op # ops) = config_run (config_step w op) ops"
    by (simp add: config_run_def)
  with Cons.IH [OF step] show ?case
    by (simp add: config_step_keys)
qed

lemma rotate_n_keys: "apiKeys ((rotateApiKey ^^ n) w) = apiKeys w"
  by (induction n) (simp_all add: rotateApiKey_keys)

lemma rotate_n_index:
  assumes "apiKeys w \<noteq> []" and "currentKeyIndex w = 0"
  shows "currentKeyIndex ((rotateApiKey ^^ n) w) = n mod length (apiKeys w)"
proof (induction n)
  case 0
  then show ?case using assms by simp
next
  case (Suc n)
  let ?k = "length (apiKeys w)"
  let ?w = "(rotateApiKey ^^ n) w"
  have keys: "apiKeys ?w = apiKeys w" by (rule rotate_n_keys)
  show ?case
  proof (cases "?k > 1")
    case True
    then have "currentKeyIndex (rotateApiKey ?w) = (currentKeyIndex ?w + 1) mod ?k"
      using keys by (simp add: rotateApiKey_def [of ?w])
    also have "\<dots> = (n mod ?k + 1) mod ?k"
      using Suc by simp
    also have "\<dots> = Suc n mod ?k"
      by (simp add: mod_Suc_eq)
    finally show ?thesis by simp
  next
    case False
    with assms have one: "?k = 1" by (cases "apiKeys w") auto
    then have "rotateApiKey ?w = ?w"
      using keys by (simp add: rotateApiKey_def [of ?w])
    with Suc one show ?thesis by simp
  qed
qed

text \<open>
  C5. For a pool of \<open>k \<ge> 1\<close> keys, the cursor of a fresh configuration stays a valid index
  (\<open>cursor < k\<close>) after any sequence of the configuration's operations, and after \<open>n\<close>
  rotations the cursor, which is also the index the active key is read at, is \<open>n mod k\<close>.
\<close>

theorem rotation_cursor_cycle:
  assumes "keys \<noteq> []"
  shows "currentKeyIndex (config_run (Config keys) ops) < length keys
       \<and> apiKeys (config_run (Config keys) ops) = keys
       \<and> currentKeyIndex ((rotateApiKey ^^ n) (Config keys)) = n mod length keys
       \<and> active_index ((rotateApiKey ^^ n) (Config keys)) = n mod length keys
       \<and> getApiKey ((rotateApiKey ^^ n) (Config keys)) = Some (keys ! (n mod length keys))"
proof -
  have valid0: "currentKeyIndex (Config keys) < length (apiKeys (Config keys))"
    using assms by (simp add: Config_def)
  have k: "apiKeys (Config keys) = keys" by (simp add: Config_def)
  have idx: "currentKeyIndex ((rotateApiKey ^^ n) (Config keys)) = n mod length keys"
    using rotate_n_index [of "Config keys" n] assms by (simp add: Config_def)
  have keysn: "apiKeys ((rotateApiKey ^^ n) (Config keys)) = keys"
    by (simp add: rotate_n_keys k)
  show ?thesis
    using config_run_valid [OF valid0, of ops] idx keysn assms
    by (simp add: k active_index_def getApiKey_def)
qed

theorem rotation_cursor_cycle_witness:
  "currentKeyIndex (config_run (Config [''k1'', ''k2'', ''k3''])
      [OpRotateApiKey, OpGetApiKey, OpRotateApiKey, OpRotateApiKey, OpRotateApiKey]) < 3
   \<and> currentKeyIndex ((rotateApiKey ^^ 7) (Config [''k1'', ''k2'', ''k3''])) = 1
   \<and> getApiKey ((rotateApiKey ^^ 7) (Config [''k1'', ''k2'', ''k3''])) = Some ''k2''"
  using rotation_cursor_cycle [of "[''k1'', ''k2'', ''k3'']"
      "[OpRotateApiKey, OpGetApiKey, OpRotateApiKey, OpRotateApiKey, OpRotateApiKey]" 7]
  by simp

section \<open>Retries and key rotation in the transport\<close>

lemma getApiKey_Some_pos: "getApiKey w = Some k \<Longrightarrow> 0 < length (apiKeys w)"
  by (auto simp: getApiKey_def split: if_splits)

lemma fetch_first_response:
  assumes key: "getApiKey w = Some k" and ne: "k \<noteq> []"
    and up: "upstream (fetches w) k = Inr r"
    and s401: "status r \<noteq> 401"
    and s429: "status r \<noteq> 429 \<or> length (apiKeys w) \<le> 1"
  shows "fetchWithKeyRotation upstream None w = (Inr r, w\<lparr>fetches := fetches w + 1\<rparr>)"
proof -
  have pos: "0 < length (apiKeys w)" using key by (rule getApiKey_Some_pos)
  have "fetch_loop upstream (length (apiKeys w)) 0 None w = (Inr r, w\<lparr>fetches := fetches w + 1\<rparr>)"
    using pos key ne up s401 s429
    by (subst fetch_loop.simps) (auto simp: getApiKeys_def)
  then show ?thesis
    using pos by (simp add: fetchWithKeyRotation_def getApiKeys_def)
qed

lemma getApiKey_fetches [simp]: "getApiKey (w\<lparr>fetches := n\<rparr>) = getApiKey w"
  by (simp add: getApiKey_def)

lemma send_try_api_error:
  assumes key: "getApiKey w = Some k" and ne: "k \<noteq> []"
    and up: "upstream (fetches w) k = Inr r"
    and nok: "\<not> ok r" and s401: "status r \<noteq> 401" and s429: "status r \<noteq> 429"
  shows "send_try parse upstream convert w =
           (Thrown (Error (''API error '' @ show_nat (status r) @ '': '' @ body r)),
            w\<lparr>fetches := fetches w + 1\<rparr>)"
  using fetch_first_response [of w k upstream r] key ne up s429 nok s401
  by (simp add: send_try_def)

lemma send_try_429:
  assumes key: "getApiKey w = Some k" and ne: "k \<noteq> []"
    and up: "upstream (fetches w) k = Inr r"
    and s429: "status r = 429" and one: "length (apiKeys w) \<le> 1"
  shows "send_try parse upstream convert w = (Continued, w\<lparr>fetches := fetches w + 1\<rparr>)"
  using fetch_first_response [of w k upstream r] key ne up s429 one
  by (simp add: send_try_def ok_def)

lemma send_loop_end:
  "send_loop parse upstream convert 3 (Some e) w = (Inl e, w)"
  by (subst send_loop.simps) (simp add: MAX_RETRIES_def)

lemma send_loop_end_None:
  "send_loop parse upstream convert 3 None w = (Inl (Error ''Max retries exceeded''), w)"
  by (subst send_loop.simps) (simp add: MAX_RETRIES_def)

lemma send_loop_thrown:
  assumes "send_try parse upstream convert w = (Thrown e, w1)" and "\<not> isNetworkError e"
    and "attempt < 3"
  shows "send_loop parse upstream convert attempt lastError w =
         send_loop parse upstream convert (attempt + 1) (Some e) w1"
  using assms by (subst send_loop.simps) (simp add: MAX_RETRIES_def)

lemma send_loop_continued:
  assumes "send_try parse upstream convert w = (Continued, w1)" and "attempt < 3"
  shows "send_loop parse upstream convert attempt lastError w =
         send_loop parse upstream convert (attempt + 1) lastError w1"
  using assms by (subst send_loop.simps) (simp add: MAX_RETRIES_def)

lemma send_loop_returned:
  assumes "send_try parse upstream convert w = (Returned r, w1)" and "attempt < 3"
  shows "send_loop parse upstream convert attempt lastError w = (Inr r, w1)"
  using assms by (subst send_loop.simps) (simp add: MAX_RETRIES_def)

text \<open>
  Three attempts that each end in an HTTP error, possibly a different one each time: every
  attempt is made, and the error raised is the one of the third.
\<close>

lemma send_loop_api_errors:
  assumes key: "getApiKey w = Some k" and ne: "k \<noteq> []"
    and up0: "upstream (fetches w) k = Inr r0"
    and up1: "upstream (fetches w + 1) k = Inr r1"
    and up2: "upstream (fetches w + 2) k = Inr r2"
    and bad: "\<And>r. r = r0 \<or> r = r1 \<or> r = r2 \<Longrightarrow>
                \<not> ok r \<and> status r \<noteq> 401 \<and> status r \<noteq> 429 \<and>
                \<not> isNetworkError (Error (''API error '' @ show_nat (status r) @ '': '' @ body r))"
  shows "send_loop parse upstream convert 0 None w =
           (Inl (Error (''API error '' @ show_nat (status r2) @ '': '' @ body r2)),
            w\<lparr>fetches := fetches w + 3\<rparr>)"
proof -
  define e where "e r = Error (''API error '' @ show_nat (status r) @ '': '' @ body r)"
    for r :: response
  have step: "send_try parse upstream convert (w\<lparr>fetches := n\<rparr>) =
                (Thrown (e r), w\<lparr>fetches := n + 1\<rparr>)"
    if "upstream n k = Inr r" and "r = r0 \<or> r = r1 \<or> r = r2" for n r
    using send_try_api_error [of "w\<lparr>fetches := n\<rparr>" k upstream r parse convert]
      key ne that(1) bad [OF that(2)]
    by (simp add: e_def)
  have nn: "\<not> isNetworkError (e r)" if "r = r0 \<or> r = r1 \<or> r = r2" for r
    using bad [OF that] by (simp add: e_def)
  have s0: "send_try parse upstream convert w = (Thrown (e r0), w\<lparr>fetches := fetches w + 1\<rparr>)"
    using step [of "fetches w" r0] up0 by simp
  have s1: "send_try parse upstream convert (w\<lparr>fetches := fetches w + 1\<rparr>) =
              (Thrown (e r1), w\<lparr>fetches := fetches w + 1 + 1\<rparr>)"
    using up1 by (intro step) simp_all
  have s2: "send_try parse upstream convert (w\<lparr>fetches := fetches w + 2\<rparr>) =
              (Thrown (e r2), w\<lparr>fetches := fetches w + 2 + 1\<rparr>)"
    using up2 by (intro step) simp_all
  have "send_loop parse upstream convert 0 None w
        = send_loop parse upstream convert 1 (Some (e r0)) (w\<lparr>fetches := fetches w + 1\<rparr>)"
    using send_loop_thrown [OF s0 nn, where attempt = 0 and lastError = None] by simp
  also have "\<dots> = send_loop parse upstream convert 2 (Some (e r1)) (w\<lparr>fetches := fetches w + 2\<rparr>)"
    using send_loop_thrown [OF s1 nn, where attempt = 1 and lastError = "Some (e r0)"]
    by (simp add: numeral_2_eq_2)
  also have "\<dots> = send_loop parse upstream convert 3 (Some (e r2)) (w\<lparr>fetches := fetches w + 3\<rparr>)"
    using send_loop_thrown [OF s2 nn, where attempt = 2 and lastError = "Some (e r1)"]
    by (simp add: numeral_3_eq_3)
  finally show ?thesis by (simp add: send_loop_end e_def)
qed

lemma show_status_samples:
  "show_nat 500 = ''500''" "show_nat 503 = ''503''" "show_nat 502 = ''502''"
  by (simp_all add: show_nat.simps digits_def)

lemma sample_openai_conv: "convertOpenAIToOllama sample_openai_request =
  Inr \<lparr>o_model = JStr ''m'', o_messages = [\<lparr>role = JStr ''user'', content = JStr ''hello''\<rparr>],
       o_stream = JBool False, o_options = []\<rparr>"
  by (simp add: convertOpenAIToOllama_def sample_openai_request_def js_or_def
        convert_openai_message_def get_opt_def build_options_def)

lemma sample_conv: "convertAnthropicToOllama sample_stringify sample_request =
  Inr \<lparr>o_model = JStr ''m'', o_messages = [\<lparr>role = JStr ''user'', content = JStr ''hello''\<rparr>],
       o_stream = JBool False, o_options = [(''num_predict'', JNum 4096)]\<rparr>"
  by (simp add: convertAnthropicToOllama_def sample_request_def system_message_def
        convert_message_def get_opt_def convert_role_def build_options_def)

lemma send_loop_all_429:
  assumes key: "getApiKey w = Some k" and ne: "k \<noteq> []" and one: "length (apiKeys w) \<le> 1"
    and up: "\<And>n. \<exists>r. upstream n k = Inr r \<and> status r = 429"
  shows "send_loop parse upstream convert 0 None w =
           (Inl (Error ''Max retries exceeded''), w\<lparr>fetches := fetches w + 3\<rparr>)"
proof -
  have step: "send_try parse upstream convert (w\<lparr>fetches := n\<rparr>) = (Continued, w\<lparr>fetches := n + 1\<rparr>)" for n
  proof -
    obtain r where r: "upstream n k = Inr r" "status r = 429" using up by blast
    show ?thesis
      using send_try_429 [of "w\<lparr>fetches := n\<rparr>" k upstream r parse convert] key ne one r
      by simp
  qed
  have s0: "send_try parse upstream convert w = (Continued, w\<lparr>fetches := fetches w + 1\<rparr>)"
    using step [of "fetches w"] by simp
  have "send_loop parse upstream convert 0 None w
        = send_loop parse upstream convert 1 None (w\<lparr>fetches := fetches w + 1\<rparr>)"
    using send_loop_continued [OF s0, where attempt = 0 and lastError = None] by simp
  also have "\<dots> = send_loop parse upstream convert 2 None (w\<lparr>fetches := fetches w + 2\<rparr>)"
    using send_loop_continued [OF step [of "fetches w + 1"], where attempt = 1 and lastError = None]
    by (simp add: numeral_2_eq_2)
  also have "\<dots> = send_loop parse upstream convert 3 None (w\<lparr>fetches := fetches w + 3\<rparr>)"
    using send_loop_continued [OF step [of "fetches w + 2"], where attempt = 2 and lastError = None]
    by (simp add: numeral_3_eq_3)
  finally show ?thesis by (simp add: send_loop_end_None)
qed

text \<open>
  C4. With one key and an upstream that answers 429 to every fetch, \<^verbatim>\<open>sendMessage\<close> makes
  exactly three fetches, one per attempt of the outer loop. No attempt throws, so
  \<^verbatim>\<open>lastError\<close> is never set and the error raised is the fallback
  \<^verbatim>\<open>Max retries exceeded\<close>, which the front door reads as \<^verbatim>\<open>api_error\<close> with status 500, not
  as a rate-limit error.
\<close>

theorem rate_limit_exhaustion:
  "sendMessage sample_stringify sample_parse upstream_429 sample_request (Config [''key-1''])
     = (Inl (Error ''Max retries exceeded''),
        \<lparr>apiKeys = [''key-1''], currentKeyIndex = 0, fetches = 3\<rparr>)
   \<and> parseError (Error ''Max retries exceeded'') = (''api_error'', 500)"
proof -
  have "send_loop sample_parse upstream_429
          (\<lambda>data. convertOllamaToAnthropic data (model sample_request)) 0 None (Config [''key-1''])
        = (Inl (Error ''Max retries exceeded''),
           (Config [''key-1''])\<lparr>fetches := fetches (Config [''key-1'']) + 3\<rparr>)"
    by (rule send_loop_all_429 [where k = "''key-1''"])
       (simp_all add: Config_def getApiKey_def upstream_429_def)
  then show ?thesis
    by (simp add: sendMessage_def sample_conv Config_def parseError_def)
qed

text \<open>
  C2. The claim: a non-streaming call that fails with a non-transient error raises that
  error after a single attempt. The code at the pool \<open>[key-1]\<close>, with an upstream that
  answers the first fetch 500 \<^verbatim>\<open>a\<close>, the second 503 \<^verbatim>\<open>b\<close> and every later one 502 \<^verbatim>\<open>c\<close>:
  the first error, \<^verbatim>\<open>API error 500: a\<close>, is not a network error, yet \<^verbatim>\<open>sendMessage\<close> and
  \<^verbatim>\<open>sendOpenAIMessage\<close> fetch three times and raise the error of the third attempt,
  \<^verbatim>\<open>API error 502: c\<close>. The \<^verbatim>\<open>catch\<close> block stores the error in \<^verbatim>\<open>lastError\<close> and neither
  throws nor leaves the loop.
\<close>

theorem non_transient_error_retried:
  "\<not> isNetworkError (Error ''API error 500: a'')
   \<and> fst (send_try sample_parse upstream_errors
             (\<lambda>data. convertOllamaToAnthropic data (model sample_request)) (Config [''key-1'']))
       = Thrown (Error ''API error 500: a'')
   \<and> sendMessage sample_stringify sample_parse upstream_errors sample_request (Config [''key-1''])
       = (Inl (Error ''API error 502: c''),
          \<lparr>apiKeys = [''key-1''], currentKeyIndex = 0, fetches = 3\<rparr>)
   \<and> sendOpenAIMessage sample_parse upstream_errors sample_openai_request (Config [''key-1''])
       = (Inl (Error ''API error 502: c''),
          \<lparr>apiKeys = [''key-1''], currentKeyIndex = 0, fetches = 3\<rparr>)"
proof -
  have loop: "send_loop sample_parse upstream_errors convert 0 None (Config [''key-1''])
        = (Inl (Error (''API error '' @ show_nat (status \<lparr>status = 502, body = ''c''\<rparr>) @ '': ''
                  @ body \<lparr>status = 502, body = ''c''\<rparr>)),
           (Config [''key-1''])\<lparr>fetches := fetches (Config [''key-1'']) + 3\<rparr>)"
    for convert :: "jsval \<Rightarrow> js_error + 'x"
    by (rule send_loop_api_errors [where k = "''key-1''"
          and ?r0.0 = "\<lparr>status = 500, body = ''a''\<rparr>"
          and ?r1.0 = "\<lparr>status = 503, body = ''b''\<rparr>"])
       (auto simp add: Config_def getApiKey_def upstream_errors_def ok_def show_status_samples
          isNetworkError_def)
  have first: "send_try sample_parse upstream_errors
                 (\<lambda>data. convertOllamaToAnthropic data (model sample_request)) (Config [''key-1''])
               = (Thrown (Error (''API error '' @ show_nat (status \<lparr>status = 500, body = ''a''\<rparr>)
                            @ '': '' @ body \<lparr>status = 500, body = ''a''\<rparr>)),
                  (Config [''key-1''])\<lparr>fetches := fetches (Config [''key-1'']) + 1\<rparr>)"
    by (rule send_try_api_error [where k = "''key-1''"])
       (simp_all add: Config_def getApiKey_def upstream_errors_def ok_def)
  show ?thesis
    using first
      loop [of "\<lambda>data. convertOllamaToAnthropic data (model sample_request)"]
      loop [of "\<lambda>data. convertOllamaToOpenAI data (oa_model sample_openai_request)"]
    by (simp add: sendMessage_def sendOpenAIMessage_def sample_conv sample_openai_conv
          Config_def show_status_samples isNetworkError_def)
qed

lemma fetch_rotates_on_401:
  assumes keys: "apiKeys w = [k1, k2]" and cur: "currentKeyIndex w = 0"
    and ne1: "k1 \<noteq> []" and ne2: "k2 \<noteq> []"
    and up1: "upstream (fetches w) k1 = Inr r1" and s1: "status r1 = 401"
    and up2: "upstream (fetches w + 1) k2 = Inr r2" and s2: "status r2 = 200"
  shows "fetchWithKeyRotation upstream None w =
           (Inr r2, w\<lparr>currentKeyIndex := 1, fetches := fetches w + 2\<rparr>)"
proof -
  let ?w1 = "rotateApiKey (w\<lparr>fetches := fetches w + 1\<rparr>)"
  have w1: "?w1 = w\<lparr>currentKeyIndex := 1, fetches := fetches w + 1\<rparr>"
    using keys cur by (simp add: rotateApiKey_def)
  have first: "fetch_loop upstream 2 0 None w = fetch_loop upstream 2 1 None ?w1"
    using keys cur ne1 up1 s1
    by (subst fetch_loop.simps) (simp add: getApiKey_def)
  have second: "fetch_loop upstream 2 1 None (w\<lparr>currentKeyIndex := 1, fetches := fetches w + 1\<rparr>)
                = (Inr r2, w\<lparr>currentKeyIndex := 1, fetches := fetches w + 2\<rparr>)"
    using keys ne2 up2 s2
    by (subst fetch_loop.simps) (simp add: getApiKey_def getApiKeys_def)
  have len: "length (apiKeys w) = 2" using keys by simp
  have "fetchWithKeyRotation upstream None w = fetch_loop upstream 2 0 None w"
    by (simp add: fetchWithKeyRotation_def getApiKeys_def len)
  also have "\<dots> = fetch_loop upstream 2 1 None (w\<lparr>currentKeyIndex := 1, fetches := fetches w + 1\<rparr>)"
    using first w1 by simp
  finally show ?thesis
    using second by simp
qed

text \<open>
  C6. With the pool \<open>[k1, k2]\<close> and the cursor on \<open>k1\<close>, when the fetch with \<open>k1\<close> is answered
  401 and the next one, with \<open>k2\<close>, is answered 200 with a body that parses and converts,
  \<^verbatim>\<open>sendMessage\<close> returns the converted response after two fetches and leaves the cursor on
  \<open>k2\<close>.
\<close>

theorem rotation_on_401_succeeds:
  assumes keys: "apiKeys w = [k1, k2]" and cur: "currentKeyIndex w = 0"
    and ne1: "k1 \<noteq> []" and ne2: "k2 \<noteq> []"
    and up1: "upstream (fetches w) k1 = Inr r1" and s1: "status r1 = 401"
    and up2: "upstream (fetches w + 1) k2 = Inr r2" and s2: "status r2 = 200"
    and parsed: "parse (body r2) = Inr data"
    and conv: "convertOllamaToAnthropic data (model req) = Inr result"
    and creq: "convertAnthropicToOllama stringify req = Inr oreq"
  shows "sendMessage stringify parse upstream req w =
           (Inr result, w\<lparr>currentKeyIndex := 1, fetches := fetches w + 2\<rparr>)
       \<and> getApiKey (snd (sendMessage stringify parse upstream req w)) = Some k2"
proof -
  have f: "fetchWithKeyRotation upstream None w =
           (Inr r2, w\<lparr>currentKeyIndex := 1, fetches := fetches w + 2\<rparr>)"
    using keys cur ne1 ne2 up1 s1 up2 s2 by (rule fetch_rotates_on_401)
  have t: "send_try parse upstream (\<lambda>data. convertOllamaToAnthropic data (model req)) w =
           (Returned result, w\<lparr>currentKeyIndex := 1, fetches := fetches w + 2\<rparr>)"
    using f s2 parsed conv by (simp add: send_try_def ok_def)
  have "send_loop parse upstream (\<lambda>data. convertOllamaToAnthropic data (model req)) 0 None w =
           (Inr result, w\<lparr>currentKeyIndex := 1, fetches := fetches w + 2\<rparr>)"
    using t by (rule send_loop_returned) simp
  then show ?thesis
    using creq keys by (simp add: sendMessage_def getApiKey_def)
qed

theorem rotation_on_401_succeeds_witness:
  "sendMessage sample_stringify sample_parse upstream_by_key sample_request (Config [''key-1'', ''key-2''])
   = (Inr \<lparr>a_text = JStr ''Hi'', a_model = JStr ''m'', a_stop_reason = JNull,
           a_input_tokens = JNum 0, a_output_tokens = JNum 2\<rparr>,
      \<lparr>apiKeys = [''key-1'', ''key-2''], currentKeyIndex = 1, fetches = 2\<rparr>)"
proof -
  have conv: "convertOllamaToAnthropic
      (JObj [(''message'', JObj [(''content'', JStr ''Hi'')]), (''done'', JBool False)])
      (model sample_request) =
      Inr \<lparr>a_text = JStr ''Hi'', a_model = JStr ''m'', a_stop_reason = JNull,
           a_input_tokens = JNum 0, a_output_tokens = JNum 2\<rparr>"
    by (simp add: convertOllamaToAnthropic_def destructure_def get_opt_def anthropic_content_def
          js_or_def sample_request_def)
  show ?thesis
    using rotation_on_401_succeeds [of "Config [''key-1'', ''key-2'']" "''key-1''" "''key-2''"
        upstream_by_key "\<lparr>status = 401, body = ''unauthorized''\<rparr>"
        "\<lparr>status = 200, body = ''{\"message\":{\"content\":\"Hi\"},\"done\":false}''\<rparr>"
        sample_parse _ sample_request _ sample_stringify, OF _ _ _ _ _ _ _ _ _ conv sample_conv]
    by (simp add: Config_def upstream_by_key_def sample_parse_def)
qed

section \<open>Thinking in responses\<close>

lemma get_opt_JStr_truthy: "get_opt v n = JStr t \<Longrightarrow> truthy v"
  by (cases v) (auto simp: get_opt_def split: if_splits)

lemma with_thinking_JStr:
  "with_thinking (JStr t) c = JStr (if truthy c then t @ ''\<newline>\<newline>'' @ to_string c else t)"
  by (simp add: with_thinking_def js_add_def)

lemma stream_text_openai_content:
  "stream_text msg =
     (if truthy (get_opt msg ''thinking'')
      then with_thinking (get_opt msg ''thinking'') (openai_content msg)
      else openai_content msg)"
  by (cases "get_opt msg ''content''")
     (auto simp: stream_text_def openai_content_def Let_def js_or_def get_opt_def)

lemma openai_content_string: "get_opt msg ''content'' = JStr c \<Longrightarrow> openai_content msg = JStr c"
  by (simp add: openai_content_def)

text \<open>
  C1 (amended). For an Ollama response whose message carries a non-empty string
  \<^verbatim>\<open>thinking\<close>, the OpenAI-schema conversions render the thinking, then a blank line and the
  rendered content when that content is truthy, and the thinking alone otherwise:
  \<^verbatim>\<open>convertOllamaToOpenAI\<close> on every such response, \<^verbatim>\<open>convertOllamaStreamToOpenAI\<close> on every
  such line whose \<^verbatim>\<open>done\<close> flag is not set. The rendered content is \<open>openai_content\<close>, which
  is the content itself when it is a string (\<open>openai_content_string\<close>).
\<close>

theorem thinking_prefix_openai:
  assumes msg: "get_prop resp ''message'' = Inr msg"
    and th: "get_opt msg ''thinking'' = JStr t" and ne: "t \<noteq> []"
  shows "map_sum id c_content (convertOllamaToOpenAI resp mdl) =
           Inr (JStr (if truthy (openai_content msg)
                      then t @ ''\<newline>\<newline>'' @ to_string (openai_content msg) else t))
       \<and> (\<not> truthy (get_opt resp ''done'') \<longrightarrow>
            convertOllamaStreamToOpenAI resp mdl =
              Inr (Some (DeltaChunk mdl
                     (JStr (if truthy (openai_content msg)
                            then t @ ''\<newline>\<newline>'' @ to_string (openai_content msg) else t)))))"
proof -
  have tm: "truthy msg" using th by (rule get_opt_JStr_truthy)
  have notnull: "resp \<noteq> JUndefined \<and> resp \<noteq> JNull"
    using msg by (cases resp) auto
  have gm: "get_opt resp ''message'' = msg" using msg by (simp add: get_opt_def)
  have first: "map_sum id c_content (convertOllamaToOpenAI resp mdl) =
           Inr (JStr (if truthy (openai_content msg)
                      then t @ ''\<newline>\<newline>'' @ to_string (openai_content msg) else t))"
    using msg notnull tm th ne
    by (simp add: convertOllamaToOpenAI_def destructure_def Let_def with_thinking_JStr)
  have st: "stream_text msg = JStr (if truthy (openai_content msg)
                      then t @ ''\<newline>\<newline>'' @ to_string (openai_content msg) else t)"
    using th ne by (simp add: stream_text_openai_content with_thinking_JStr)
  have tst: "truthy (stream_text msg)"
    using ne by (simp add: st)
  have dn: "get_prop resp ''done'' = Inr (get_opt resp ''done'')"
    using notnull by (cases resp) (simp_all add: get_opt_def)
  have second: "\<not> truthy (get_opt resp ''done'') \<Longrightarrow>
            convertOllamaStreamToOpenAI resp mdl =
              Inr (Some (DeltaChunk mdl
                     (JStr (if truthy (openai_content msg)
                            then t @ ''\<newline>\<newline>'' @ to_string (openai_content msg) else t))))"
    using tst tm by (simp add: convertOllamaStreamToOpenAI_def dn gm Let_def st)
  show ?thesis using first second by blast
qed

theorem thinking_prefix_openai_witness:
  "map_sum id c_content
     (convertOllamaToOpenAI
        (JObj [(''message'', JObj [(''content'', JStr ''A''), (''thinking'', JStr ''T'')]),
               (''done'', JBool False)]) (JStr ''m''))
     = Inr (JStr ''T\<newline>\<newline>A'')
   \<and> convertOllamaStreamToOpenAI
        (JObj [(''message'', JObj [(''content'', JStr ''A''), (''thinking'', JStr ''T'')]),
               (''done'', JBool False)]) (JStr ''m'')
     = Inr (Some (DeltaChunk (JStr ''m'') (JStr ''T\<newline>\<newline>A'')))"
  using thinking_prefix_openai [of
      "JObj [(''message'', JObj [(''content'', JStr ''A''), (''thinking'', JStr ''T'')]),
             (''done'', JBool False)]"
      "JObj [(''content'', JStr ''A''), (''thinking'', JStr ''T'')]" "''T''" "JStr ''m''"]
  by (simp add: get_opt_def openai_content_def)

text \<open>
  C1 as stated fails on the Anthropic-schema conversions, which never read \<^verbatim>\<open>thinking\<close>, on a
  stream line with \<^verbatim>\<open>done\<close> set, which the OpenAI conversion turns into the stop chunk, and
  on an empty \<^verbatim>\<open>thinking\<close>, which the test \<^verbatim>\<open>if (message.thinking)\<close> ignores.
\<close>

theorem thinking_counterexample:
  "map_sum id a_text
     (convertOllamaToAnthropic
        (JObj [(''message'', JObj [(''content'', JStr ''A''), (''thinking'', JStr ''T'')]),
               (''done'', JBool True)]) (JStr ''m''))
     = Inr (JStr ''A'')
   \<and> convertOllamaStreamToAnthropic
        (JObj [(''message'', JObj [(''content'', JStr ''A''), (''thinking'', JStr ''T'')]),
               (''done'', JBool False)]) (JStr ''m'')
     = Inr (Some (ContentBlockDelta (JStr ''A'')))
   \<and> convertOllamaStreamToOpenAI
        (JObj [(''message'', JObj [(''content'', JStr ''A''), (''thinking'', JStr ''T'')]),
               (''done'', JBool True)]) (JStr ''m'')
     = Inr (Some (StopChunk (JStr ''m'')))
   \<and> map_sum id c_content
     (convertOllamaToOpenAI
        (JObj [(''message'', JObj [(''content'', JStr ''A''), (''thinking'', JStr [])]),
               (''done'', JBool True)]) (JStr ''m''))
     = Inr (JStr ''A'')"
  by (simp add: convertOllamaToAnthropic_def convertOllamaStreamToAnthropic_def
        convertOllamaStreamToOpenAI_def convertOllamaToOpenAI_def destructure_def get_opt_def
        anthropic_content_def openai_content_def js_or_def)

section \<open>Events of one stream line\<close>

lemma get_prop_not_null: "get_prop v n = Inr x \<Longrightarrow> get_prop v m = Inr (get_opt v m)"
  by (cases v) (simp_all add: get_opt_def)

text \<open>
  C3 (amended). One stream line makes the OpenAI stream yield at most one chunk and the
  Anthropic stream yield at most two events. A line that parses to an object with truthy
  message content and a truthy \<^verbatim>\<open>done\<close> flag makes \<^verbatim>\<open>sendMessageStream\<close> yield both the content
  delta and then the terminal event; on the same line the OpenAI stream yields the stop chunk
  only and \<^verbatim>\<open>convertOllamaStreamToAnthropic\<close> returns the delta only.
\<close>

theorem stream_line_events:
  "length (openai_line parse mdl line) \<le> 1
   \<and> length (fst (anthropic_line parse mdl acc line)) \<le> 2
   \<and> (\<not> skipped line \<and> parse line = Inr data \<and> get_prop data ''message'' = Inr msg
        \<and> truthy (get_opt msg ''content'') \<and> truthy (get_opt data ''done'')
      \<longrightarrow> fst (anthropic_line parse mdl acc line) =
            [ContentBlockDelta (get_opt msg ''content''),
             MessageStop
               (JArr [JObj [(''type'', JStr ''text''),
                            (''text'', JStr (acc @ to_string (get_opt msg ''content'')))]])
               mdl
               (js_or (get_opt data ''prompt_eval_count'') (JNum 0))
               (js_or (get_opt data ''eval_count'') (JNum 0))]
          \<and> openai_line parse mdl line = [StopChunk mdl]
          \<and> convertOllamaStreamToAnthropic data mdl =
              Inr (Some (ContentBlockDelta (get_opt msg ''content''))))"
proof -
  have a: "length (openai_line parse mdl line) \<le> 1"
    by (simp add: openai_line_def split: sum.splits option.splits)
  have b: "length (fst (anthropic_line parse mdl acc line)) \<le> 2"
    by (simp add: anthropic_line_def Let_def split: sum.splits)
  have c: "fst (anthropic_line parse mdl acc line) =
            [ContentBlockDelta (get_opt msg ''content''),
             MessageStop
               (JArr [JObj [(''type'', JStr ''text''),
                            (''text'', JStr (acc @ to_string (get_opt msg ''content'')))]])
               mdl
               (js_or (get_opt data ''prompt_eval_count'') (JNum 0))
               (js_or (get_opt data ''eval_count'') (JNum 0))]
          \<and> openai_line parse mdl line = [StopChunk mdl]
          \<and> convertOllamaStreamToAnthropic data mdl =
              Inr (Some (ContentBlockDelta (get_opt msg ''content'')))"
    if h: "\<not> skipped line" "parse line = Inr data" "get_prop data ''message'' = Inr msg"
        "truthy (get_opt msg ''content'')" "truthy (get_opt data ''done'')"
  proof -
    have d: "get_prop data ''done'' = Inr (get_opt data ''done'')"
      using h(3) by (rule get_prop_not_null)
    have nu: "get_opt msg ''content'' \<noteq> JUndefined"
      using h(4) by auto
    show ?thesis
      using h nu
      by (simp add: anthropic_line_def openai_line_def Let_def convertOllamaStreamToOpenAI_def d
            convertOllamaStreamToAnthropic_def)
  qed
  show ?thesis using a b c by blast
qed

theorem stream_line_events_witness:
  "length (openai_line sample_parse (JStr ''m'') ''{\"done\":true,\"eval_count\":3}'') \<le> 1
   \<and> fst (anthropic_line sample_parse (JStr ''m'') ''ab''
            ''{\"message\":{\"content\":\"Hi\"},\"done\":true,\"eval_count\":3}'')
       = [ContentBlockDelta (JStr ''Hi''),
          MessageStop (JArr [JObj [(''type'', JStr ''text''), (''text'', JStr ''abHi'')]])
            (JStr ''m'') (JNum 0) (JNum 3)]
   \<and> openai_line sample_parse (JStr ''m'')
         ''{\"message\":{\"content\":\"Hi\"},\"done\":true,\"eval_count\":3}''
       = [StopChunk (JStr ''m'')]"
  using stream_line_events [of sample_parse "JStr ''m''"
      "''{\"message\":{\"content\":\"Hi\"},\"done\":true,\"eval_count\":3}''" "''ab''"
      "JObj [(''message'', JObj [(''content'', JStr ''Hi'')]), (''done'', JBool True),
             (''eval_count'', JNum 3)]"
      "JObj [(''content'', JStr ''Hi'')]"]
     stream_line_events [of sample_parse "JStr ''m''" "''{\"done\":true,\"eval_count\":3}''"]
  by (simp add: sample_parse_def skipped_def is_space_def get_opt_def js_or_def)

text \<open>
  C3 as stated fails in \<^verbatim>\<open>sendMessageStream\<close>: one line with content and \<^verbatim>\<open>done\<close> yields a
  delta and a terminal event.
\<close>

theorem stream_line_counterexample:
  "fst (anthropic_line sample_parse (JStr ''m'') []
          ''{\"message\":{\"content\":\"Hi\"},\"done\":true,\"eval_count\":3}'')
   = [ContentBlockDelta (JStr ''Hi''),
      MessageStop (JArr [JObj [(''type'', JStr ''text''), (''text'', JStr ''Hi'')]])
        (JStr ''m'') (JNum 0) (JNum 3)]"
  by (simp add: anthropic_line_def sample_parse_def skipped_def is_space_def get_opt_def js_or_def
        Let_def)

section \<open>Message contents in the request conversion\<close>

lemma block_text_of_text_block:
  "is_text_block block \<Longrightarrow> block_text stringify block = Inr (to_string (get_opt block ''text''))"
  by (cases block) (auto simp: is_text_block_def block_text_def get_opt_def split: if_splits)

lemma blocks_loop_text_blocks:
  "list_all is_text_block blocks \<Longrightarrow>
   blocks_loop stringify acc blocks = Inr (acc @ block_texts blocks)"
proof (induction blocks arbitrary: acc)
  case Nil
  then show ?case by (simp add: block_texts_def)
next
  case (Cons b bs)
  then have b: "block_text stringify b = Inr (to_string (get_opt b ''text''))"
    by (simp add: block_text_of_text_block)
  have "blocks_loop stringify (acc @ to_string (get_opt b ''text'')) bs
        = Inr ((acc @ to_string (get_opt b ''text'')) @ block_texts bs)"
    using Cons.prems by (intro Cons.IH) simp
  then show ?case
    by (simp add: b block_texts_def)
qed

lemma get_opt_role: "get_opt msg ''content'' = JArr blocks \<Longrightarrow>
   get_prop msg ''role'' = Inr (get_opt msg ''role'')"
  by (cases msg) (auto simp: get_opt_def split: if_splits)

lemma convert_message_text_only:
  assumes "text_only msg"
  shows "convert_message stringify msg =
           Inr (if message_texts msg \<noteq> []
                then [\<lparr>role = convert_role (get_opt msg ''role''),
                       content = JStr (message_texts msg)\<rparr>]
                else [])"
proof -
  obtain blocks where c: "get_opt msg ''content'' = JArr blocks"
    and tb: "list_all is_text_block blocks"
    using assms by (auto simp: text_only_def split: jsval.splits)
  have r: "get_prop msg ''role'' = Inr (get_opt msg ''role'')"
    using c by (rule get_opt_role)
  have l: "blocks_loop stringify [] blocks = Inr (block_texts blocks)"
    using blocks_loop_text_blocks [OF tb, of stringify "[]"] by simp
  show ?thesis
    by (simp add: convert_message_def r c l message_texts_def)
qed

lemma messages_loop_text_only:
  "list_all text_only msgs \<Longrightarrow>
   messages_loop stringify acc msgs =
     Inr (acc @ map (\<lambda>msg. \<lparr>role = convert_role (get_opt msg ''role''),
                            content = JStr (message_texts msg)\<rparr>)
                  (filter (\<lambda>msg. message_texts msg \<noteq> []) msgs))"
proof (induction msgs arbitrary: acc)
  case Nil
  then show ?case by simp
next
  case (Cons m ms)
  then have m: "text_only m" and ms: "list_all text_only ms" by simp_all
  show ?case
    by (simp add: convert_message_text_only [OF m] Cons.IH [OF ms])
qed

text \<open>
  C7 (amended). For a request whose messages all have an array of text blocks as content,
  the translated messages are, after the optional system message and in the original order,
  one message for each source message whose block texts concatenate to a non-empty string,
  and its content is that concatenation with nothing inserted between the texts. A message
  whose concatenation is empty has no translated message.
\<close>

theorem text_blocks_concatenated:
  assumes "list_all text_only (messages req)"
  shows "map_sum id o_messages (convertAnthropicToOllama stringify req) =
           Inr (system_message (system req)
                @ map (\<lambda>msg. \<lparr>role = convert_role (get_opt msg ''role''),
                               content = JStr (message_texts msg)\<rparr>)
                      (filter (\<lambda>msg. message_texts msg \<noteq> []) (messages req)))"
  using assms by (simp add: convertAnthropicToOllama_def messages_loop_text_only)

theorem text_blocks_concatenated_witness:
  "map_sum id o_messages (convertAnthropicToOllama sample_stringify text_blocks_request) =
     Inr [\<lparr>role = JStr ''system'', content = JStr ''be brief''\<rparr>,
          \<lparr>role = JStr ''assistant'', content = JStr ''ab''\<rparr>]"
  using text_blocks_concatenated [of text_blocks_request sample_stringify]
  by (simp add: text_blocks_request_def text_only_def is_text_block_def get_opt_def
        message_texts_def block_texts_def system_message_def convert_role_def)

text \<open>
  C7 as stated fails: of two messages made of text blocks only, the one whose single text is
  empty has no translated content at all; the output holds the system message and one
  translated message.
\<close>

theorem text_blocks_counterexample:
  "convertAnthropicToOllama sample_stringify text_blocks_request =
     Inr \<lparr>o_model = JStr ''m'',
          o_messages = [\<lparr>role = JStr ''system'', content = JStr ''be brief''\<rparr>,
                        \<lparr>role = JStr ''assistant'', content = JStr ''ab''\<rparr>],
          o_stream = JBool False, o_options = [(''num_predict'', JNum 4096)]\<rparr>
   \<and> length (messages text_blocks_request) = 2"
  by (simp add: convertAnthropicToOllama_def text_blocks_request_def system_message_def
        convert_message_def block_text_def get_opt_def convert_role_def build_options_def)

lemma messages_loop_acc:
  "messages_loop stringify acc msgs =
     (case messages_loop stringify [] msgs of Inl e \<Rightarrow> Inl e | Inr out \<Rightarrow> Inr (acc @ out))"
proof (induction msgs arbitrary: acc)
  case Nil
  then show ?case by simp
next
  case (Cons m ms)
  show ?case
  proof (cases "convert_message stringify m")
    case (Inl e)
    then show ?thesis by simp
  next
    case (Inr out)
    show ?thesis
      using Cons.IH [of "acc @ out"] Cons.IH [of out]
      by (simp add: Inr split: sum.splits)
  qed
qed

lemma messages_loop_append:
  "messages_loop stringify acc (xs @ ys) =
     (case messages_loop stringify acc xs of
        Inl e \<Rightarrow> Inl e
      | Inr a \<Rightarrow> messages_loop stringify a ys)"
  by (induction xs arbitrary: acc) (simp_all split: sum.splits)

lemma messages_loop_skip:
  assumes "convert_message stringify m = Inr []"
  shows "messages_loop stringify acc (pre @ m # post) = messages_loop stringify acc (pre @ post)"
  using assms by (simp add: messages_loop_append split: sum.splits)

lemma messages_loop_keep:
  assumes "convert_message stringify m = Inr [x]"
  shows "messages_loop stringify acc (pre @ m # post) =
     (case messages_loop stringify acc pre of
        Inl e \<Rightarrow> Inl e
      | Inr a \<Rightarrow>
          (case messages_loop stringify [] post of
             Inl e \<Rightarrow> Inl e
           | Inr b \<Rightarrow> Inr (a @ [x] @ b)))"
  using assms
  by (simp add: messages_loop_append messages_loop_acc [of _ "_ @ [x]"] split: sum.splits)

text \<open>
  C10. In \<^verbatim>\<open>convertAnthropicToOllama\<close>, a message (an object, so that reading its role does
  not throw) whose content is an array that flattens to the empty string, or whose content
  is neither a string nor an array, leaves the result exactly as if the message were not in
  the list; a message whose content is a string \<open>s\<close>, empty or not, is translated to a message
  with content \<open>s\<close>, placed between the translations of the messages before and after it.
\<close>

theorem empty_messages_omitted:
  assumes r: "get_prop m ''role'' = Inr r"
  shows "(get_opt m ''content'' = JArr blocks \<and> blocks_loop stringify [] blocks = Inr []
          \<longrightarrow> convertAnthropicToOllama stringify (req\<lparr>messages := pre @ m # post\<rparr>)
              = convertAnthropicToOllama stringify (req\<lparr>messages := pre @ post\<rparr>))
       \<and> (js_typeof (get_opt m ''content'') \<noteq> ''string'' \<and> \<not> is_array (get_opt m ''content'')
          \<longrightarrow> convertAnthropicToOllama stringify (req\<lparr>messages := pre @ m # post\<rparr>)
              = convertAnthropicToOllama stringify (req\<lparr>messages := pre @ post\<rparr>))
       \<and> (get_opt m ''content'' = JStr s
          \<longrightarrow> map_sum id o_messages
                (convertAnthropicToOllama stringify (req\<lparr>messages := pre @ m # post\<rparr>))
              = (case map_sum id o_messages
                        (convertAnthropicToOllama stringify (req\<lparr>messages := pre\<rparr>)) of
                   Inl e \<Rightarrow> Inl e
                 | Inr a \<Rightarrow>
                     (case messages_loop stringify [] post of
                        Inl e \<Rightarrow> Inl e
                      | Inr b \<Rightarrow> Inr (a @ [\<lparr>role = convert_role r, content = JStr s\<rparr>] @ b))))"
proof -
  have a: "convert_message stringify m = Inr []"
    if "get_opt m ''content'' = JArr blocks" "blocks_loop stringify [] blocks = Inr []"
    using that r by (simp add: convert_message_def)
  have b: "convert_message stringify m = Inr []"
    if "js_typeof (get_opt m ''content'') \<noteq> ''string''" "\<not> is_array (get_opt m ''content'')"
    using that r by (cases "get_opt m ''content''") (simp_all add: convert_message_def)
  have c: "convert_message stringify m = Inr [\<lparr>role = convert_role r, content = JStr s\<rparr>]"
    if "get_opt m ''content'' = JStr s"
    using that r by (simp add: convert_message_def)
  show ?thesis
  proof (intro conjI impI)
    assume "get_opt m ''content'' = JArr blocks \<and> blocks_loop stringify [] blocks = Inr []"
    then show "convertAnthropicToOllama stringify (req\<lparr>messages := pre @ m # post\<rparr>)
              = convertAnthropicToOllama stringify (req\<lparr>messages := pre @ post\<rparr>)"
      using a by (simp add: convertAnthropicToOllama_def messages_loop_skip split: sum.splits)
  next
    assume "js_typeof (get_opt m ''content'') \<noteq> ''string'' \<and> \<not> is_array (get_opt m ''content'')"
    then show "convertAnthropicToOllama stringify (req\<lparr>messages := pre @ m # post\<rparr>)
              = convertAnthropicToOllama stringify (req\<lparr>messages := pre @ post\<rparr>)"
      using b by (simp add: convertAnthropicToOllama_def messages_loop_skip split: sum.splits)
  next
    assume "get_opt m ''content'' = JStr s"
    then show "map_sum id o_messages
                (convertAnthropicToOllama stringify (req\<lparr>messages := pre @ m # post\<rparr>))
              = (case map_sum id o_messages
                        (convertAnthropicToOllama stringify (req\<lparr>messages := pre\<rparr>)) of
                   Inl e \<Rightarrow> Inl e
                 | Inr a \<Rightarrow>
                     (case messages_loop stringify [] post of
                        Inl e \<Rightarrow> Inl e
                      | Inr b \<Rightarrow> Inr (a @ [\<lparr>role = convert_role r, content = JStr s\<rparr>] @ b)))"
      using c by (simp add: convertAnthropicToOllama_def messages_loop_keep split: sum.splits)
  qed
qed

theorem empty_messages_omitted_witness:
  "map_sum id o_messages
     (convertAnthropicToOllama sample_stringify
        (sample_request\<lparr>messages :=
           [] @ JObj [(''role'', JStr ''user''),
                      (''content'', JArr [JObj [(''type'', JStr ''image'')]])]
              # [JObj [(''role'', JStr ''user''), (''content'', JStr ''hello'')]]\<rparr>))
     = Inr [\<lparr>role = JStr ''user'', content = JStr ''hello''\<rparr>]
   \<and> map_sum id o_messages
     (convertAnthropicToOllama sample_stringify
        (sample_request\<lparr>messages :=
           [] @ JObj [(''role'', JStr ''user''), (''content'', JNum 5)]
              # [JObj [(''role'', JStr ''user''), (''content'', JStr ''hello'')]]\<rparr>))
     = Inr [\<lparr>role = JStr ''user'', content = JStr ''hello''\<rparr>]
   \<and> map_sum id o_messages
     (convertAnthropicToOllama sample_stringify
        (sample_request\<lparr>messages :=
           [] @ JObj [(''role'', JStr ''assistant''), (''content'', JStr [])]
              # [JObj [(''role'', JStr ''user''), (''content'', JStr ''hello'')]]\<rparr>))
     = Inr [\<lparr>role = JStr ''assistant'', content = JStr []\<rparr>,
            \<lparr>role = JStr ''user'', content = JStr ''hello''\<rparr>]"
proof -
  have rest: "convertAnthropicToOllama sample_stringify
        (sample_request\<lparr>messages :=
           [JObj [(''role'', JStr ''user''), (''content'', JStr ''hello'')]]\<rparr>)
     = Inr \<lparr>o_model = JStr ''m'', o_messages = [\<lparr>role = JStr ''user'', content = JStr ''hello''\<rparr>],
            o_stream = JBool False, o_options = [(''num_predict'', JNum 4096)]\<rparr>"
    by (simp add: convertAnthropicToOllama_def sample_request_def system_message_def
          convert_message_def get_opt_def convert_role_def build_options_def)
  have none: "convertAnthropicToOllama sample_stringify (sample_request\<lparr>messages := []\<rparr>)
     = Inr \<lparr>o_model = JStr ''m'', o_messages = [],
            o_stream = JBool False, o_options = [(''num_predict'', JNum 4096)]\<rparr>"
    by (simp add: convertAnthropicToOllama_def sample_request_def system_message_def
          build_options_def)
  show ?thesis
    using empty_messages_omitted [where
        m = "JObj [(''role'', JStr ''user''),
                   (''content'', JArr [JObj [(''type'', JStr ''image'')]])]"
        and r = "JStr ''user''" and blocks = "[JObj [(''type'', JStr ''image'')]]"
        and stringify = sample_stringify and req = sample_request and pre = "[]"
        and post = "[JObj [(''role'', JStr ''user''), (''content'', JStr ''hello'')]]"]
      empty_messages_omitted [where
        m = "JObj [(''role'', JStr ''user''), (''content'', JNum 5)]"
        and r = "JStr ''user''"
        and stringify = sample_stringify and req = sample_request and pre = "[]"
        and post = "[JObj [(''role'', JStr ''user''), (''content'', JStr ''hello'')]]"]
      empty_messages_omitted [where
        m = "JObj [(''role'', JStr ''assistant''), (''content'', JStr [])]"
        and r = "JStr ''assistant''" and s = "[]"
        and stringify = sample_stringify and req = sample_request and pre = "[]"
        and post = "[JObj [(''role'', JStr ''user''), (''content'', JStr ''hello'')]]"]
    by (simp add: rest none get_opt_def block_text_def convert_role_def convert_message_def)
qed

section \<open>Lines of a stream\<close>

lemma split_nl_nonempty [simp]: "split_nl s \<noteq> []"
  by (induction s) (auto split: list.splits)

lemma split_nl_no_newline: "CHR 0x0A \<notin> set s \<Longrightarrow> split_nl s = [s]"
  by (induction s) auto

lemma last_split_nl_no_newline: "CHR 0x0A \<notin> set (last (split_nl s))"
proof (induction s)
  case Nil
  then show ?case by simp
next
  case (Cons c cs)
  show ?case
  proof (cases "split_nl cs")
    case Nil
    then show ?thesis by simp
  next
    case (Cons l ls)
    with Cons.IH show ?thesis
      by (cases ls) auto
  qed
qed

lemma split_nl_append:
  "split_nl (a @ b) = butlast (split_nl a) @ split_nl (last (split_nl a) @ b)"
proof (induction a)
  case Nil
  then show ?case by simp
next
  case (Cons c cs)
  obtain l ls where s: "split_nl cs = l # ls"
    by (cases "split_nl cs") auto
  show ?case
  proof (cases "c = CHR 0x0A")
    case True
    then show ?thesis using Cons.IH by simp
  next
    case False
    show ?thesis
    proof (cases ls)
      case Nil
      then show ?thesis using False Cons.IH s by simp
    next
      case (Cons l' ls')
      then show ?thesis using False Cons.IH s by simp
    qed
  qed
qed

lemma split_nl_line:
  "CHR 0x0A \<notin> set l \<Longrightarrow> split_nl (l @ CHR 0x0A # rest) = l # split_nl rest"
  by (induction l) auto

lemma split_nl_single: "split_nl s = [l] \<Longrightarrow> CHR 0x0A \<notin> set s"
proof (induction s arbitrary: l)
  case Nil
  then show ?case by simp
next
  case (Cons c cs)
  obtain l' ls where s: "split_nl cs = l' # ls"
    by (cases "split_nl cs") auto
  from Cons.prems s have c: "c \<noteq> CHR 0x0A"
    by (auto split: if_splits)
  with Cons.prems s have "ls = []" by simp
  with s Cons.IH have "CHR 0x0A \<notin> set cs" by simp
  with c show ?case by simp
qed

lemma last_split_nl_complete:
  "pre = [] \<or> last pre = CHR 0x0A \<Longrightarrow> last (split_nl pre) = []"
proof (induction pre)
  case Nil
  then show ?case by simp
next
  case (Cons c cs)
  show ?case
  proof (cases "cs = []")
    case True
    with Cons.prems show ?thesis by simp
  next
    case False
    with Cons.prems have "last cs = CHR 0x0A" by simp
    then have IH: "last (split_nl cs) = []" using Cons.IH by simp
    obtain l ls where s: "split_nl cs = l # ls"
      by (cases "split_nl cs") auto
    have "ls \<noteq> []"
    proof
      assume "ls = []"
      with s have "CHR 0x0A \<notin> set cs" by (simp add: split_nl_single)
      moreover have "last cs \<in> set cs" using False by simp
      ultimately show False using \<open>last cs = CHR 0x0A\<close> by simp
    qed
    then show ?thesis using IH s by (cases ls) auto
  qed
qed

lemma anthropic_lines_append:
  "anthropic_lines parse mdl acc (xs @ ys) =
     (case anthropic_lines parse mdl acc xs of
        (e1, c1) \<Rightarrow>
          (case anthropic_lines parse mdl c1 ys of (e2, c2) \<Rightarrow> (e1 @ e2, c2)))"
  by (induction xs arbitrary: acc) (auto split: prod.splits)

lemma sendMessageStream_read_chunks:
  "CHR 0x0A \<notin> set buffer \<Longrightarrow>
   sendMessageStream_read parse mdl buffer acc (map Inr chunks) =
     (fst (anthropic_lines parse mdl acc (butlast (split_nl (buffer @ concat chunks)))), None)"
proof (induction chunks arbitrary: buffer acc)
  case Nil
  then show ?case by (simp add: split_nl_no_newline)
next
  case (Cons c cs)
  let ?ls = "split_nl (buffer @ c)"
  obtain evs acc1 where l1: "anthropic_lines parse mdl acc (butlast ?ls) = (evs, acc1)"
    by (cases "anthropic_lines parse mdl acc (butlast ?ls)") auto
  have IH: "sendMessageStream_read parse mdl (last ?ls) acc1 (map Inr cs) =
     (fst (anthropic_lines parse mdl acc1 (butlast (split_nl (last ?ls @ concat cs)))), None)"
    by (rule Cons.IH) (rule last_split_nl_no_newline)
  have sp: "butlast (split_nl (buffer @ c @ concat cs)) =
            butlast ?ls @ butlast (split_nl (last ?ls @ concat cs))"
    using split_nl_append [of "buffer @ c" "concat cs"]
    by (simp add: butlast_append)
  show ?case
    by (simp add: l1 IH sp anthropic_lines_append split: prod.splits)
qed

lemma sendOpenAIMessageStream_read_chunks:
  "CHR 0x0A \<notin> set buffer \<Longrightarrow>
   sendOpenAIMessageStream_read parse mdl buffer (map Inr chunks) =
     (concat (map (openai_line parse mdl) (butlast (split_nl (buffer @ concat chunks)))), None)"
proof (induction chunks arbitrary: buffer)
  case Nil
  then show ?case by (simp add: split_nl_no_newline)
next
  case (Cons c cs)
  let ?ls = "split_nl (buffer @ c)"
  have IH: "sendOpenAIMessageStream_read parse mdl (last ?ls) (map Inr cs) =
     (concat (map (openai_line parse mdl) (butlast (split_nl (last ?ls @ concat cs)))), None)"
    by (rule Cons.IH) (rule last_split_nl_no_newline)
  have sp: "butlast (split_nl (buffer @ c @ concat cs)) =
            butlast ?ls @ butlast (split_nl (last ?ls @ concat cs))"
    using split_nl_append [of "buffer @ c" "concat cs"]
    by (simp add: butlast_append)
  show ?case
    by (simp add: IH sp)
qed

text \<open>
  C8. When the text read from the response is the two lines
  \<^verbatim>\<open>{"message":{"content":"Hi"},"done":false}\<close> and \<^verbatim>\<open>{"done":true,"eval_count":3}\<close>, each
  ended by a newline and cut into chunks in any way, the stream yields exactly two events:
  a content delta with the text \<^verbatim>\<open>Hi\<close>, then the terminal event, whose usage has 3 output
  tokens; and it ends without an error.
\<close>

theorem two_line_stream:
  assumes p1: "parse ''{\"message\":{\"content\":\"Hi\"},\"done\":false}'' =
                 Inr (JObj [(''message'', JObj [(''content'', JStr ''Hi'')]), (''done'', JBool False)])"
    and p2: "parse ''{\"done\":true,\"eval_count\":3}'' =
                 Inr (JObj [(''done'', JBool True), (''eval_count'', JNum 3)])"
    and chunks: "concat chunks =
                 ''{\"message\":{\"content\":\"Hi\"},\"done\":false}'' @ [CHR 0x0A]
                 @ ''{\"done\":true,\"eval_count\":3}'' @ [CHR 0x0A]"
  shows "sendMessageStream_read parse mdl [] [] (map Inr chunks) =
           ([ContentBlockDelta (JStr ''Hi''),
             MessageStop (JArr [JObj [(''type'', JStr ''text''), (''text'', JStr ''Hi'')]])
               mdl (JNum 0) (JNum 3)],
            None)"
proof -
  define l1 where "l1 = ''{\"message\":{\"content\":\"Hi\"},\"done\":false}''"
  define l2 where "l2 = ''{\"done\":true,\"eval_count\":3}''"
  have n1: "CHR 0x0A \<notin> set l1" and n2: "CHR 0x0A \<notin> set l2"
    by (simp_all add: l1_def l2_def)
  have s1: "\<not> skipped l1" and s2: "\<not> skipped l2"
    by (simp_all add: l1_def l2_def skipped_def is_space_def)
  have c: "concat chunks = l1 @ CHR 0x0A # l2 @ CHR 0x0A # []"
    using chunks by (simp add: l1_def l2_def)
  have lines: "butlast (split_nl (concat chunks)) = [l1, l2]"
    by (simp add: c split_nl_line n1 n2)
  have e1: "anthropic_line parse mdl [] l1 = ([ContentBlockDelta (JStr ''Hi'')], ''Hi'')"
    using p1 s1 by (simp add: anthropic_line_def l1_def [symmetric] get_opt_def Let_def)
  have e2: "anthropic_line parse mdl ''Hi'' l2 =
      ([MessageStop (JArr [JObj [(''type'', JStr ''text''), (''text'', JStr ''Hi'')]])
               mdl (JNum 0) (JNum 3)], ''Hi'')"
    using p2 s2 by (simp add: anthropic_line_def l2_def [symmetric] get_opt_def Let_def js_or_def)
  show ?thesis
    using sendMessageStream_read_chunks [of "[]" parse mdl "[]" chunks]
    by (simp add: lines e1 e2)
qed

theorem two_line_stream_witness:
  "sendMessageStream_read sample_parse (JStr ''m'') [] []
     (map Inr [''{\"message\":{\"con'', ''tent\":\"Hi\"},\"done\":false}'' @ [CHR 0x0A] @ ''{\"done\":true,'',
               ''\"eval_count\":3}'' @ [CHR 0x0A]])
   = ([ContentBlockDelta (JStr ''Hi''),
       MessageStop (JArr [JObj [(''type'', JStr ''text''), (''text'', JStr ''Hi'')]])
         (JStr ''m'') (JNum 0) (JNum 3)],
      None)"
  by (rule two_line_stream) (simp_all add: sample_parse_def)

lemma anthropic_line_unparsed:
  "parse line = Inl e \<Longrightarrow> anthropic_line parse mdl acc line = ([], acc)"
  by (simp add: anthropic_line_def)

lemma openai_line_unparsed:
  "parse line = Inl e \<Longrightarrow> openai_line parse mdl line = []"
  by (simp add: openai_line_def)

lemma lines_with_bad_line:
  assumes nl: "CHR 0x0A \<notin> set bad" and pre: "pre = [] \<or> last pre = CHR 0x0A"
  shows "butlast (split_nl (pre @ bad @ [CHR 0x0A] @ post)) =
           butlast (split_nl pre) @ bad # butlast (split_nl post)"
    and "butlast (split_nl (pre @ post)) = butlast (split_nl pre) @ butlast (split_nl post)"
proof -
  have l: "last (split_nl pre) = []" using pre by (rule last_split_nl_complete)
  have "split_nl (pre @ bad @ [CHR 0x0A] @ post) = butlast (split_nl pre) @ bad # split_nl post"
    using split_nl_append [of pre "bad @ [CHR 0x0A] @ post"] l nl
    by (simp add: split_nl_line)
  then show "butlast (split_nl (pre @ bad @ [CHR 0x0A] @ post)) =
           butlast (split_nl pre) @ bad # butlast (split_nl post)"
    by (simp add: butlast_append)
  have "split_nl (pre @ post) = butlast (split_nl pre) @ split_nl post"
    using split_nl_append [of pre post] l by simp
  then show "butlast (split_nl (pre @ post)) = butlast (split_nl pre) @ butlast (split_nl post)"
    by (simp add: butlast_append)
qed

text \<open>
  C9. A complete line that \<^verbatim>\<open>JSON.parse\<close> rejects changes nothing: for any text before it
  (empty or ended by a newline) and any text after it, and however the text is cut into
  chunks, both streams yield exactly the events of the same text without that line, and
  neither ends with an error.
\<close>

theorem malformed_line_skipped:
  assumes bad: "parse bad = Inl e"
    and nl: "CHR 0x0A \<notin> set bad"
    and pre: "pre = [] \<or> last pre = CHR 0x0A"
    and with_bad: "concat chunks = pre @ bad @ [CHR 0x0A] @ post"
    and without: "concat chunks' = pre @ post"
  shows "sendMessageStream_read parse mdl [] [] (map Inr chunks) =
           sendMessageStream_read parse mdl [] [] (map Inr chunks')
       \<and> snd (sendMessageStream_read parse mdl [] [] (map Inr chunks)) = None
       \<and> sendOpenAIMessageStream_read parse mdl [] (map Inr chunks) =
           sendOpenAIMessageStream_read parse mdl [] (map Inr chunks')
       \<and> snd (sendOpenAIMessageStream_read parse mdl [] (map Inr chunks)) = None"
proof -
  let ?A = "butlast (split_nl pre)" and ?B = "butlast (split_nl post)"
  have l1: "butlast (split_nl (concat chunks)) = ?A @ bad # ?B"
    using lines_with_bad_line(1) [OF nl pre] with_bad by simp
  have l2: "butlast (split_nl (concat chunks')) = ?A @ ?B"
    using lines_with_bad_line(2) [OF nl pre] without by simp
  have a: "anthropic_lines parse mdl [] (?A @ bad # ?B) = anthropic_lines parse mdl [] (?A @ ?B)"
    by (simp add: anthropic_lines_append anthropic_line_unparsed [of parse bad e] bad split: prod.splits)
  have b: "openai_line parse mdl bad = []"
    using bad by (rule openai_line_unparsed)
  show ?thesis
    using sendMessageStream_read_chunks [of "[]" parse mdl "[]" chunks]
      sendMessageStream_read_chunks [of "[]" parse mdl "[]" chunks']
      sendOpenAIMessageStream_read_chunks [of "[]" parse mdl chunks]
      sendOpenAIMessageStream_read_chunks [of "[]" parse mdl chunks']
    by (simp add: l1 l2 a b)
qed

theorem malformed_line_skipped_witness:
  "sendMessageStream_read sample_parse (JStr ''m'') [] []
     (map Inr [''{\"message\":{\"content\":\"Hi\"},\"done\":false}'' @ [CHR 0x0A] @ ''{oops'',
               [CHR 0x0A] @ ''{\"done\":true,\"eval_count\":3}'' @ [CHR 0x0A]])
   = ([ContentBlockDelta (JStr ''Hi''),
       MessageStop (JArr [JObj [(''type'', JStr ''text''), (''text'', JStr ''Hi'')]])
         (JStr ''m'') (JNum 0) (JNum 3)],
      None)
   \<and> sendOpenAIMessageStream_read sample_parse (JStr ''m'') []
     (map Inr [''{\"message\":{\"content\":\"Hi\"},\"done\":false}'' @ [CHR 0x0A] @ ''{oops'',
               [CHR 0x0A] @ ''{\"done\":true,\"eval_count\":3}'' @ [CHR 0x0A]])
   = ([DeltaChunk (JStr ''m'') (JStr ''Hi''), StopChunk (JStr ''m'')], None)"
proof -
  have clean: "sendMessageStream_read sample_parse (JStr ''m'') [] []
     (map Inr [''{\"message\":{\"content\":\"Hi\"},\"done\":false}'' @ [CHR 0x0A]
               @ ''{\"done\":true,\"eval_count\":3}'' @ [CHR 0x0A]])
   = ([ContentBlockDelta (JStr ''Hi''),
       MessageStop (JArr [JObj [(''type'', JStr ''text''), (''text'', JStr ''Hi'')]])
         (JStr ''m'') (JNum 0) (JNum 3)],
      None)"
    by (simp add: anthropic_line_def sample_parse_def skipped_def is_space_def get_opt_def
          js_or_def Let_def)
  have clean': "sendOpenAIMessageStream_read sample_parse (JStr ''m'') []
     (map Inr [''{\"message\":{\"content\":\"Hi\"},\"done\":false}'' @ [CHR 0x0A]
               @ ''{\"done\":true,\"eval_count\":3}'' @ [CHR 0x0A]])
   = ([DeltaChunk (JStr ''m'') (JStr ''Hi''), StopChunk (JStr ''m'')], None)"
    by (simp add: openai_line_def convertOllamaStreamToOpenAI_def stream_text_def
          sample_parse_def skipped_def is_space_def get_opt_def js_or_def Let_def)
  have h: "sample_parse ''{oops'' = Inl (SyntaxError ''Unexpected token'')"
    by (simp add: sample_parse_def)
  show ?thesis
    using h malformed_line_skipped [where parse = sample_parse and bad = "''{oops''"
        and e = "SyntaxError ''Unexpected token''" and
        pre = "''{\"message\":{\"content\":\"Hi\"},\"done\":false}'' @ [CHR 0x0A]"
        and post = "''{\"done\":true,\"eval_count\":3}'' @ [CHR 0x0A]"
        and chunks = "[''{\"message\":{\"content\":\"Hi\"},\"done\":false}'' @ [CHR 0x0A] @ ''{oops'',
               [CHR 0x0A] @ ''{\"done\":true,\"eval_count\":3}'' @ [CHR 0x0A]]"
        and chunks' = "[''{\"message\":{\"content\":\"Hi\"},\"done\":false}'' @ [CHR 0x0A]
               @ ''{\"done\":true,\"eval_count\":3}'' @ [CHR 0x0A]]"
        and mdl = "JStr ''m''"]
      clean clean'
    by simp
qed

end
